theory Spec2Isabelle
  imports Complex_Main "HOL-Library.Multiset" "HOL-Library.Product_Lexorder"
begin

section \<open>Values: CSV cells, floats with NaN, raised errors\<close>

text \<open>
  The two scripts \<^verbatim>\<open>analyze_benchmark.py\<close> and \<^verbatim>\<open>analyze_iteration.py\<close> work on
  pandas data frames read from CSV. A data frame is modelled as the list of its rows, in
  row order; a column is the list of one field over the rows.

  A raw cell is the object the frame holds after \<^verbatim>\<open>read_csv\<close>, not the text of the
  file. \<^verbatim>\<open>read_csv\<close> settles the type of a whole column: a column it can read as numbers
  of one numeric type holds numbers, with NaN for an empty field; any other column it
  leaves as Python strings, the fields that look like numbers included. So a cell is a
  number, NaN, or a string; a string cell is \<open>Number_text x\<close> when \<^verbatim>\<open>pd.to_numeric\<close>
  reads its text as the number \<open>x\<close>, and \<open>Text s\<close> when it reads no number in \<open>s\<close>.

  In the loaders and the summary a float is an exact real number or NaN: rounding,
  overflow and the infinities of IEEE arithmetic are left out there, NaN is not, since
  the code under study produces and tests it. The correlation is modelled with float64
  rounding and the infinities, since its degenerate case depends on them.
\<close>

datatype cell = Number real | Empty | Number_text real | Text string

type_synonym fl = "real option"

abbreviation NaN :: fl where
  "NaN \<equiv> None"

abbreviation Num :: "real \<Rightarrow> fl" where
  "Num \<equiv> Some"

datatype error = TypeError | ZeroDivisionError | KeyError

type_synonym key = "string option"

text \<open>The exception monad: \<open>Inl\<close> is a raised exception.\<close>

definition bind_err :: "error + 'a \<Rightarrow> ('a \<Rightarrow> error + 'b) \<Rightarrow> error + 'b" where
  "bind_err m f = (case m of Inl e \<Rightarrow> Inl e | Inr a \<Rightarrow> f a)"

text \<open>
  A column that holds a string has dtype \<^verbatim>\<open>object\<close>. Comparing such a column with a
  number, or taking its mean, raises on the string.
\<close>

fun is_text :: "cell \<Rightarrow> bool" where
  "is_text (Text s) = True"
| "is_text (Number_text x) = True"
| "is_text c = False"

definition is_object :: "cell list \<Rightarrow> bool" where
  "is_object col = list_ex is_text col"

text \<open>
  \<^verbatim>\<open>pd.to_numeric(col, errors='coerce')\<close> on one cell: a string becomes the number read
  in it, or NaN when none is. On a numeric column it changes nothing, so it is also the
  view of a numeric column as floats.
\<close>

fun to_numeric :: "cell \<Rightarrow> fl" where
  "to_numeric (Number x) = Num x"
| "to_numeric Empty = NaN"
| "to_numeric (Number_text x) = Num x"
| "to_numeric (Text s) = NaN"

text \<open>
  \<^verbatim>\<open>col.astype(bool)\<close> on one cell: a number is true unless zero (a parsed
  \<^verbatim>\<open>True\<close>/\<^verbatim>\<open>False\<close> is the number 1/0), NaN is true, and every string is true,
  whatever it reads as: a field is never the empty string.
\<close>

fun astype_bool :: "cell \<Rightarrow> bool" where
  "astype_bool (Number x) = (x \<noteq> 0)"
| "astype_bool Empty = True"
| "astype_bool (Number_text x) = True"
| "astype_bool (Text s) = True"

subsection \<open>Float arithmetic and comparison with NaN\<close>

text \<open>Every comparison with NaN is false.\<close>

fun fl_gt :: "fl \<Rightarrow> fl \<Rightarrow> bool" where
  "fl_gt (Some a) (Some b) = (a > b)"
| "fl_gt a b = False"

fun fl_ge :: "fl \<Rightarrow> fl \<Rightarrow> bool" where
  "fl_ge (Some a) (Some b) = (a \<ge> b)"
| "fl_ge a b = False"

fun fl_le :: "fl \<Rightarrow> fl \<Rightarrow> bool" where
  "fl_le (Some a) (Some b) = (a \<le> b)"
| "fl_le a b = False"

fun fl_eq :: "fl \<Rightarrow> fl \<Rightarrow> bool" where
  "fl_eq (Some a) (Some b) = (a = b)"
| "fl_eq a b = False"

fun fl_add :: "fl \<Rightarrow> fl \<Rightarrow> fl" where
  "fl_add (Some a) (Some b) = Some (a + b)"
| "fl_add a b = NaN"

fun fl_mul :: "fl \<Rightarrow> fl \<Rightarrow> fl" where
  "fl_mul (Some a) (Some b) = Some (a * b)"
| "fl_mul a b = NaN"

text \<open>
  Scalar division \<^verbatim>\<open>a / b\<close>. A zero divisor is modelled as the error of Python's
  float division; numpy scalars would give an infinity or NaN with a warning instead,
  values this model of floats does not have. The guards of the source are there to keep
  the divisor away from zero, and the theorems below show that they do.
\<close>

definition py_truediv :: "fl \<Rightarrow> fl \<Rightarrow> error + fl" where
  "py_truediv a b =
     (if b = Num 0 then Inl ZeroDivisionError
      else Inr (case (a, b) of (Some x, Some y) \<Rightarrow> Some (x / y) | _ \<Rightarrow> NaN))"

text \<open>\<^verbatim>\<open>col == key\<close> on a key column: a missing key (NaN) equals nothing, itself included.\<close>

fun key_eq :: "key \<Rightarrow> key \<Rightarrow> bool" where
  "key_eq (Some a) (Some b) = (a = b)"
| "key_eq a b = False"

subsection \<open>pandas reductions over a float column\<close>

text \<open>The reductions skip NaN (\<^verbatim>\<open>skipna=True\<close>).\<close>

fun dropna_values :: "fl list \<Rightarrow> real list" where
  "dropna_values [] = []"
| "dropna_values (None # xs) = dropna_values xs"
| "dropna_values (Some x # xs) = x # dropna_values xs"

definition mean :: "fl list \<Rightarrow> fl" where
  "mean col =
     (let v = dropna_values col
      in if v = [] then NaN else Num (sum_list v / real (length v)))"

text \<open>\<^verbatim>\<open>Series.var()\<close> and \<^verbatim>\<open>Series.std()\<close>: the sample statistic (\<^verbatim>\<open>ddof=1\<close>), NaN
  when fewer than two values remain.\<close>

definition var :: "fl list \<Rightarrow> fl" where
  "var col =
     (let v = dropna_values col; n = length v
      in if n \<le> 1 then NaN
         else let avg = sum_list v / real n
              in Num (sum_list (map (\<lambda>x. (avg - x)\<^sup>2) v) / (real n - 1)))"

definition std :: "fl list \<Rightarrow> fl" where
  "std col = map_option sqrt (var col)"

definition median :: "fl list \<Rightarrow> fl" where
  "median col =
     (let v = sort (dropna_values col); n = length v
      in if n = 0 then NaN
         else if odd n then Num (v ! (n div 2))
         else Num ((v ! (n div 2 - 1) + v ! (n div 2)) / 2))"

text \<open>\<^verbatim>\<open>Series.quantile(q)\<close>, linear interpolation between the two nearest ranks.\<close>

definition quantile :: "fl list \<Rightarrow> real \<Rightarrow> fl" where
  "quantile col q =
     (let v = sort (dropna_values col); n = length v
      in if n = 0 then NaN
         else let virtual = (real n - 1) * q;
                  previous = nat \<lfloor>virtual\<rfloor>;
                  next = min (previous + 1) (n - 1);
                  gamma = virtual - real previous
              in Num (v ! previous + (v ! next - v ! previous) * gamma))"

definition min_col :: "fl list \<Rightarrow> fl" where
  "min_col col = (let v = dropna_values col in if v = [] then NaN else Num (Min (set v)))"

definition max_col :: "fl list \<Rightarrow> fl" where
  "max_col col = (let v = dropna_values col in if v = [] then NaN else Num (Max (set v)))"

text \<open>The mean of a boolean column counts True as 1.\<close>

definition mean_bool :: "bool list \<Rightarrow> fl" where
  "mean_bool col = mean (map (\<lambda>b. Num (if b then 1 else 0)) col)"

text \<open>\<^verbatim>\<open>col.unique()\<close>: the distinct values in order of first appearance (one NaN at most).\<close>

fun unique :: "'a list \<Rightarrow> 'a list" where
  "unique [] = []"
| "unique (x # xs) = x # unique (removeAll x xs)"

text \<open>The loop \<^verbatim>\<open>for x in xs: ys.append(f(x))\<close> where \<open>f\<close> may raise.\<close>

fun map_err :: "('a \<Rightarrow> error + 'b) \<Rightarrow> 'a list \<Rightarrow> error + 'b list" where
  "map_err f [] = Inr []"
| "map_err f (x # xs) =
     bind_err (f x) (\<lambda>y. bind_err (map_err f xs) (\<lambda>ys. Inr (y # ys)))"

text \<open>
  \<^verbatim>\<open>pd.DataFrame(stats).sort_values(column)\<close> for a list of row dictionaries. A frame built
  from the empty list has no columns, so sorting it by a column name raises
  \<^verbatim>\<open>KeyError\<close>. Otherwise the rows come back in ascending order of the column, rows
  whose value is NaN last. pandas sets the NaN rows aside, in their order, and sorts the
  others with numpy's \<^verbatim>\<open>argsort\<close>, which sorts a short array by insertion: rows of equal
  value keep the order they had. The model is this insertion sort, \<open>sort_key\<close>, on the
  pair of the NaN flag and the value.
\<close>

definition sort_column :: "fl \<Rightarrow> bool \<times> real" where
  "sort_column v = (v = NaN, case v of Some x \<Rightarrow> x | None \<Rightarrow> 0)"

definition sort_values :: "('s \<Rightarrow> fl) \<Rightarrow> 's list \<Rightarrow> error + 's list" where
  "sort_values column stats =
     (if stats = [] then Inl KeyError
      else Inr (sort_key (\<lambda>s. sort_column (column s)) stats))"

section \<open>Experiment 1: \<^verbatim>\<open>analyze_benchmark.py\<close>\<close>

text \<open>
  Every table of the scripts carries the group key \<^verbatim>\<open>graph_type\<close>. A row of
  \<^verbatim>\<open>benchmark.csv\<close> is raw (cells) before the loader's coercions and typed (floats, a
  boolean) after them. The column \<^verbatim>\<open>query_id\<close> is only counted in a progress message and
  is left out.
\<close>

record tagged =
  graph_type :: key

record ('n, 'b) benchmark_row = tagged +
  runtime_ms :: 'n
  nodes_visited :: 'n
  edges_relaxed :: 'n
  path_length :: 'n
  total_weight :: 'n
  memory_used_bytes :: 'n
  path_found :: 'b

type_synonym benchmark_raw = "(cell, cell) benchmark_row"
type_synonym benchmark_df = "(fl, bool) benchmark_row list"

text \<open>What the loaders print about removed rows.\<close>

datatype message = Removed_rows nat | Removed_outliers nat

text \<open>Lines 42-48: \<^verbatim>\<open>astype(bool)\<close> on \<^verbatim>\<open>path_found\<close>, \<^verbatim>\<open>to_numeric\<close> on the six numeric columns.\<close>

definition benchmark_coerce :: "benchmark_raw \<Rightarrow> (fl, bool) benchmark_row" where
  "benchmark_coerce r =
     \<lparr>graph_type = graph_type r,
      runtime_ms = to_numeric (runtime_ms r),
      nodes_visited = to_numeric (nodes_visited r),
      edges_relaxed = to_numeric (edges_relaxed r),
      path_length = to_numeric (path_length r),
      total_weight = to_numeric (total_weight r),
      memory_used_bytes = to_numeric (memory_used_bytes r),
      path_found = astype_bool (path_found r)\<rparr>"

text \<open>
  \<^verbatim>\<open>load_and_clean_data\<close> of \<^verbatim>\<open>analyze_benchmark.py\<close>, from the frame \<^verbatim>\<open>read_csv\<close> returned.
  Line 36 compares the runtime column with 0 before any coercion: on an object column
  that comparison (a string against an integer) raises \<^verbatim>\<open>TypeError\<close>. The result is the
  cleaned frame and what was printed about removed rows.
\<close>

definition benchmark_load_and_clean_data ::
  "benchmark_raw list \<Rightarrow> error + (benchmark_df \<times> message list)" where
  "benchmark_load_and_clean_data raw =
     (if is_object (map runtime_ms raw) then Inl TypeError
      else
        let initial_count = length raw;
            df = filter (\<lambda>r. fl_gt (to_numeric (runtime_ms r)) (Num 0)) raw;
            removed = initial_count - length df;
            printed = (if removed > 0 then [Removed_rows removed] else []);
            df = map benchmark_coerce df;
            df = filter (\<lambda>r. runtime_ms r \<noteq> NaN \<and> graph_type r \<noteq> None) df
        in Inr (df, printed))"

record benchmark_stat = tagged +
  num_queries :: nat
  avg_runtime_ms :: fl
  median_runtime_ms :: fl
  std_runtime_ms :: fl
  min_runtime_ms :: fl
  max_runtime_ms :: fl
  p95_runtime_ms :: fl
  p99_runtime_ms :: fl
  coefficient_of_variation :: fl
  avg_nodes_visited :: fl
  avg_edges_relaxed :: fl
  avg_path_length :: fl
  success_rate :: fl
  avg_memory_MB :: fl
  avg_runtime_per_MB :: fl

text \<open>Line 78: \<^verbatim>\<open>(std / mean * 100) if mean > 0 else 0\<close>.\<close>

definition cov_percent :: "fl list \<Rightarrow> error + fl" where
  "cov_percent col =
     (if fl_gt (mean col) (Num 0)
      then bind_err (py_truediv (std col) (mean col)) (\<lambda>q. Inr (fl_mul q (Num 100)))
      else Inr (Num 0))"

text \<open>Line 84: \<^verbatim>\<open>(mean(runtime) / (mean(memory) / (1024 * 1024))) if mean(memory) > 0 else 0\<close>.\<close>

definition runtime_per_MB :: "fl list \<Rightarrow> fl list \<Rightarrow> error + fl" where
  "runtime_per_MB runtime memory =
     (if fl_gt (mean memory) (Num 0)
      then bind_err (py_truediv (mean memory) (Num (1024 * 1024)))
             (\<lambda>mb. py_truediv (mean runtime) mb)
      else Inr (Num 0))"

text \<open>The body of the loop of \<^verbatim>\<open>compute_summary_stats\<close> (lines 66-85) for one key.\<close>

definition benchmark_group_stat :: "benchmark_df \<Rightarrow> key \<Rightarrow> error + benchmark_stat" where
  "benchmark_group_stat df g =
     (let graph_data = filter (\<lambda>r. key_eq (graph_type r) g) df;
          runtime = map runtime_ms graph_data;
          memory = map memory_used_bytes graph_data
      in bind_err (cov_percent runtime) (\<lambda>cv.
         bind_err (py_truediv (mean memory) (Num (1024 * 1024))) (\<lambda>mem_MB.
         bind_err (runtime_per_MB runtime memory) (\<lambda>per_MB.
         Inr \<lparr>graph_type = g,
              num_queries = length graph_data,
              avg_runtime_ms = mean runtime,
              median_runtime_ms = median runtime,
              std_runtime_ms = std runtime,
              min_runtime_ms = min_col runtime,
              max_runtime_ms = max_col runtime,
              p95_runtime_ms = quantile runtime 0.95,
              p99_runtime_ms = quantile runtime 0.99,
              coefficient_of_variation = cv,
              avg_nodes_visited = mean (map nodes_visited graph_data),
              avg_edges_relaxed = mean (map edges_relaxed graph_data),
              avg_path_length = mean (map path_length graph_data),
              success_rate = fl_mul (mean_bool (map path_found graph_data)) (Num 100),
              avg_memory_MB = mem_MB,
              avg_runtime_per_MB = per_MB\<rparr>))))"

definition benchmark_compute_summary_stats :: "benchmark_df \<Rightarrow> error + benchmark_stat list" where
  "benchmark_compute_summary_stats df =
     bind_err (map_err (benchmark_group_stat df) (unique (map graph_type df)))
       (sort_values avg_runtime_ms)"

text \<open>The findings of \<^verbatim>\<open>detect_anomalies\<close>, one constructor per message format.\<close>

datatype anomaly =
  Zero_runtime nat
| Outliers key nat
| Failed_paths nat
| High_variance "key list"

definition benchmark_group_outliers :: "benchmark_df \<Rightarrow> key \<Rightarrow> anomaly list" where
  "benchmark_group_outliers df g =
     (let graph_data = filter (\<lambda>r. key_eq (graph_type r) g) df;
          mean = mean (map runtime_ms graph_data);
          std = std (map runtime_ms graph_data);
          threshold = fl_add mean (fl_mul (Num 3) std);
          outliers = length (filter (\<lambda>r. fl_gt (runtime_ms r) threshold) graph_data)
      in if outliers > 0 then [Outliers g outliers] else [])"

definition detect_anomalies :: "benchmark_df \<Rightarrow> error + anomaly list" where
  "detect_anomalies df =
     (let zero_runtime = length (filter (\<lambda>r. fl_eq (runtime_ms r) (Num 0)) df);
          zero_found = (if zero_runtime > 0 then [Zero_runtime zero_runtime] else []);
          outlier_found = concat (map (benchmark_group_outliers df) (unique (map graph_type df)));
          failed = length (filter (\<lambda>r. path_found r = False) df);
          failed_found = (if failed > 0 then [Failed_paths failed] else [])
      in bind_err (benchmark_compute_summary_stats df) (\<lambda>stats.
           let high_variance = filter (\<lambda>s. fl_gt (coefficient_of_variation s) (Num 30)) stats
           in Inr (zero_found @ outlier_found @ failed_found @
                   (if length high_variance > 0
                    then [High_variance (map graph_type high_variance)] else []))))"

subsection \<open>Pearson correlation\<close>

text \<open>
  \<^verbatim>\<open>Series.corr\<close> keeps the positions where both series have a value, turns the two
  rows into arrays of float64 and hands them to \<^verbatim>\<open>numpy.corrcoef\<close>. Array arithmetic
  raises nothing: a division by zero gives an infinity or NaN, and every operation rounds
  its exact result to the nearest float64. Whether the correlation with a constant series
  is NaN depends on both, so the arrays have their own value type, with the infinities,
  and the rounding is part of the model. The sign of zero is not: the model has one zero
  and divides by it as by +0.
\<close>

datatype npfloat = Finite real | PosInf | NegInf | Nan

text \<open>Rounding to the nearest integer, a tie to the even one.\<close>

definition round_half_even :: "real \<Rightarrow> int" where
  "round_half_even q =
     (let f = \<lfloor>q\<rfloor>; d = q - of_int f
      in if d < 1 / 2 then f else if d > 1 / 2 then f + 1 else if even f then f else f + 1)"

text \<open>
  The float64 nearest to a real number (IEEE 754 binary64, round to nearest, ties to
  even): a significand of 53 bits at the exponent \<open>e\<close> of the number, which is at least
  -1022, so that the numbers below \<open>2 powi (- 1022)\<close> are rounded on the grid of the
  subnormal numbers; a result of \<open>2 ^ 1024\<close> or more is an infinity.
\<close>

definition float64 :: "real \<Rightarrow> npfloat" where
  "float64 x =
     (if x = 0 then Finite 0
      else let e = max \<lfloor>log 2 \<bar>x\<bar>\<rfloor> (- 1022);
               ulp = 2 powi (e - 52);
               r = of_int (round_half_even (x / ulp)) * ulp
           in if \<bar>r\<bar> \<ge> 2 ^ 1024 then (if x > 0 then PosInf else NegInf) else Finite r)"

fun np_negative :: "npfloat \<Rightarrow> npfloat" where
  "np_negative (Finite a) = Finite (- a)"
| "np_negative PosInf = NegInf"
| "np_negative NegInf = PosInf"
| "np_negative Nan = Nan"

fun np_add :: "npfloat \<Rightarrow> npfloat \<Rightarrow> npfloat" where
  "np_add Nan b = Nan"
| "np_add a Nan = Nan"
| "np_add (Finite a) (Finite b) = float64 (a + b)"
| "np_add PosInf NegInf = Nan"
| "np_add NegInf PosInf = Nan"
| "np_add PosInf b = PosInf"
| "np_add NegInf b = NegInf"
| "np_add (Finite a) b = b"

definition np_subtract :: "npfloat \<Rightarrow> npfloat \<Rightarrow> npfloat" where
  "np_subtract a b = np_add a (np_negative b)"

fun np_true_divide :: "npfloat \<Rightarrow> npfloat \<Rightarrow> npfloat" where
  "np_true_divide Nan b = Nan"
| "np_true_divide a Nan = Nan"
| "np_true_divide (Finite a) (Finite b) =
     (if b = 0 then (if a = 0 then Nan else if a > 0 then PosInf else NegInf)
      else float64 (a / b))"
| "np_true_divide (Finite a) b = Finite 0"
| "np_true_divide PosInf (Finite b) = (if b \<ge> 0 then PosInf else NegInf)"
| "np_true_divide NegInf (Finite b) = (if b \<ge> 0 then NegInf else PosInf)"
| "np_true_divide a b = Nan"

fun np_multiply :: "npfloat \<Rightarrow> npfloat \<Rightarrow> npfloat" where
  "np_multiply Nan b = Nan"
| "np_multiply a Nan = Nan"
| "np_multiply (Finite a) (Finite b) = float64 (a * b)"
| "np_multiply (Finite a) PosInf = (if a = 0 then Nan else if a > 0 then PosInf else NegInf)"
| "np_multiply (Finite a) NegInf = (if a = 0 then Nan else if a > 0 then NegInf else PosInf)"
| "np_multiply PosInf (Finite b) = (if b = 0 then Nan else if b > 0 then PosInf else NegInf)"
| "np_multiply NegInf (Finite b) = (if b = 0 then Nan else if b > 0 then NegInf else PosInf)"
| "np_multiply PosInf PosInf = PosInf"
| "np_multiply NegInf NegInf = PosInf"
| "np_multiply a b = NegInf"

fun np_sqrt :: "npfloat \<Rightarrow> npfloat" where
  "np_sqrt (Finite a) = (if a \<ge> 0 then float64 (sqrt a) else Nan)"
| "np_sqrt PosInf = PosInf"
| "np_sqrt a = Nan"

fun np_clip :: "npfloat \<Rightarrow> real \<Rightarrow> real \<Rightarrow> npfloat" where
  "np_clip (Finite a) lo hi = Finite (min (max a lo) hi)"
| "np_clip PosInf lo hi = Finite hi"
| "np_clip NegInf lo hi = Finite lo"
| "np_clip Nan lo hi = Nan"

text \<open>
  The sum of a row, as \<^verbatim>\<open>numpy.add.reduce\<close> takes it along the contiguous axis (numpy's
  pairwise summation). A row of fewer than 8 values is added from left to right,
  starting from 0. A row of up to 128 values is added in eight running sums, the
  \<open>j\<close>-th over the values at the places \<open>j\<close>, \<open>8 + j\<close>, \<open>16 + j\<close>, ... of the full blocks of
  8; the eight sums are added as a tree, and the values after the last full block are
  added to that from left to right. A longer row is split in two, the left part a multiple
  of 8 long, and the sums of the parts are added.
\<close>

fun add_blocks :: "npfloat list \<Rightarrow> npfloat list \<Rightarrow> npfloat list \<times> npfloat list" where
  "add_blocks r a =
     (if length a < 8 then (r, a)
      else add_blocks (map (\<lambda>(x, y). np_add x y) (zip r (take 8 a))) (drop 8 a))"

declare add_blocks.simps [simp del]

function pairwise_sum :: "npfloat list \<Rightarrow> npfloat" where
  "pairwise_sum a =
     (let n = length a
      in if n < 8 then foldl np_add (Finite 0) a
         else if n \<le> 128 then
           (case add_blocks (take 8 a) (drop 8 a) of
              (r, rest) \<Rightarrow>
                foldl np_add
                  (np_add (np_add (np_add (r ! 0) (r ! 1)) (np_add (r ! 2) (r ! 3)))
                          (np_add (np_add (r ! 4) (r ! 5)) (np_add (r ! 6) (r ! 7))))
                  rest)
         else let n2 = n div 2 - n div 2 mod 8
              in np_add (pairwise_sum (take n2 a)) (pairwise_sum (drop n2 a)))"
  by pat_completeness auto

termination
  by (relation "measure length") auto

declare pairwise_sum.simps [simp del]

definition np_sum :: "npfloat list \<Rightarrow> npfloat" where
  "np_sum xs = pairwise_sum xs"

text \<open>\<^verbatim>\<open>numpy.mean\<close> of a row: the sum, divided by the number of values.\<close>

definition np_mean :: "npfloat list \<Rightarrow> npfloat" where
  "np_mean xs = np_true_divide (np_sum xs) (Finite (real (length xs)))"

text \<open>
  One entry of the matrix product \<^verbatim>\<open>dot(X, X.T)\<close>: the products of the two rows, added
  here from left to right. The library routine behind \<^verbatim>\<open>dot\<close> is free to add them in
  another order; the facts proved below are about rows for which every order gives the
  same sum.
\<close>

definition np_dot :: "npfloat list \<Rightarrow> npfloat list \<Rightarrow> npfloat" where
  "np_dot x y = foldl np_add (Finite 0) (map (\<lambda>(a, b). np_multiply a b) (zip x y))"

text \<open>
  One entry of \<^verbatim>\<open>numpy.cov\<close> (\<^verbatim>\<open>ddof=1\<close>) for two rows of equal length: the mean of each
  row is subtracted from it, and the product of the two rows of deviations is multiplied
  by \<^verbatim>\<open>1 / fact\<close> with \<^verbatim>\<open>fact = n - 1\<close>, set to 0 when it is not positive.
\<close>

definition np_cov :: "npfloat list \<Rightarrow> npfloat list \<Rightarrow> npfloat" where
  "np_cov x y =
     (let n = length x;
          avg_x = np_mean x;
          avg_y = np_mean y;
          fact = (if real n - 1 \<le> 0 then 0 else real n - 1);
          x = map (\<lambda>a. np_subtract a avg_x) x;
          y = map (\<lambda>b. np_subtract b avg_y) y
      in np_multiply (np_dot x y) (np_true_divide (Finite 1) (Finite fact)))"

text \<open>\<^verbatim>\<open>numpy.corrcoef(x, y)[0, 1]\<close>.\<close>

definition np_corrcoef :: "npfloat list \<Rightarrow> npfloat list \<Rightarrow> npfloat" where
  "np_corrcoef x y =
     (let c = np_cov x y;
          stddev_x = np_sqrt (np_cov x x);
          stddev_y = np_sqrt (np_cov y y);
          c = np_true_divide c stddev_x;
          c = np_true_divide c stddev_y
      in np_clip c (-1) 1)"

fun valid_pairs :: "(fl \<times> fl) list \<Rightarrow> (real \<times> real) list" where
  "valid_pairs [] = []"
| "valid_pairs ((Some a, Some b) # ps) = (a, b) # valid_pairs ps"
| "valid_pairs (p # ps) = valid_pairs ps"

text \<open>\<^verbatim>\<open>a.corr(b)\<close> for two columns of one frame (\<^verbatim>\<open>method='pearson'\<close>,
  \<^verbatim>\<open>min_periods=1\<close>).\<close>

definition corr :: "fl list \<Rightarrow> fl list \<Rightarrow> npfloat" where
  "corr a b =
     (let valid = valid_pairs (zip a b)
      in if length valid < 1 then Nan
         else np_corrcoef (map float64 (map fst valid)) (map float64 (map snd valid)))"

text \<open>
  A row whose values all are the mean numpy computes of it: the row then holds one value
  throughout, and adding and dividing it gives that value back without a rounding error.
\<close>

definition constant_mean :: "npfloat list \<Rightarrow> bool" where
  "constant_mean x \<longleftrightarrow> (\<forall>v \<in> set x. v = np_mean x)"

text \<open>The values 0 and NaN: what the arithmetic of the covariance makes of deviations that
  all are 0 or NaN.\<close>

fun zero_or_nan :: "npfloat \<Rightarrow> bool" where
  "zero_or_nan (Finite a) = (a = 0)"
| "zero_or_nan Nan = True"
| "zero_or_nan a = False"

record benchmark_correlations =
  nodes_visited_vs_runtime :: npfloat
  edges_relaxed_vs_runtime :: npfloat
  memory_vs_runtime :: npfloat
  path_length_vs_runtime :: npfloat

definition benchmark_correlation_analysis :: "benchmark_df \<Rightarrow> benchmark_correlations" where
  "benchmark_correlation_analysis df =
     \<lparr>nodes_visited_vs_runtime = corr (map nodes_visited df) (map runtime_ms df),
      edges_relaxed_vs_runtime = corr (map edges_relaxed df) (map runtime_ms df),
      memory_vs_runtime = corr (map memory_used_bytes df) (map runtime_ms df),
      path_length_vs_runtime = corr (map path_length df) (map runtime_ms df)\<rparr>"

text \<open>
  The data flow of \<^verbatim>\<open>main\<close>: the frame the loader returns is the only input of the
  aggregation, the anomaly detection and the correlations.
\<close>

definition benchmark_main ::
  "benchmark_raw list \<Rightarrow>
     error + (benchmark_stat list \<times> anomaly list \<times> benchmark_correlations \<times> message list)" where
  "benchmark_main raw =
     bind_err (benchmark_load_and_clean_data raw) (\<lambda>(df, printed).
     bind_err (benchmark_compute_summary_stats df) (\<lambda>stats_df.
     bind_err (detect_anomalies df) (\<lambda>anomalies.
     Inr (stats_df, anomalies, benchmark_correlation_analysis df, printed))))"

section \<open>Experiment 3: \<^verbatim>\<open>analyze_iteration.py\<close>\<close>

text \<open>A row of \<^verbatim>\<open>iteration.csv\<close>; the column \<^verbatim>\<open>node\<close> is only counted in a progress
  message and is left out.\<close>

record 'n iteration_row = tagged +
  iteration_time_ns :: 'n
  time_per_edge_ns :: 'n
  degree :: 'n
  category :: key

type_synonym iteration_raw = "cell iteration_row"
type_synonym iteration_df = "fl iteration_row list"

text \<open>Lines 38-41: the threshold of one key, from the rows the frame holds for it.\<close>

definition outlier_threshold :: "iteration_raw list \<Rightarrow> key \<Rightarrow> fl" where
  "outlier_threshold df g =
     (let graph_data = filter (\<lambda>r. key_eq (graph_type r) g) df;
          mean = mean (map (\<lambda>r. to_numeric (iteration_time_ns r)) graph_data);
          std = std (map (\<lambda>r. to_numeric (iteration_time_ns r)) graph_data)
      in fl_add mean (fl_mul (Num 5) std))"

text \<open>The loop of lines 37-42 over the keys: every round rebinds the frame.\<close>

fun remove_outliers :: "key list \<Rightarrow> iteration_raw list \<Rightarrow> iteration_raw list" where
  "remove_outliers [] df = df"
| "remove_outliers (g # gs) df =
     remove_outliers gs
       (filter (\<lambda>r. \<not> (key_eq (graph_type r) g \<and>
                       fl_gt (to_numeric (iteration_time_ns r)) (outlier_threshold df g))) df)"

definition iteration_coerce :: "iteration_raw \<Rightarrow> fl iteration_row" where
  "iteration_coerce r =
     \<lparr>graph_type = graph_type r,
      iteration_time_ns = to_numeric (iteration_time_ns r),
      time_per_edge_ns = to_numeric (time_per_edge_ns r),
      degree = to_numeric (degree r),
      category = category r\<rparr>"

text \<open>
  \<^verbatim>\<open>load_and_clean_data\<close> of \<^verbatim>\<open>analyze_iteration.py\<close>. The loop takes the mean of the
  timing column and compares the column with the threshold before any coercion; on an
  object column the first round raises.
\<close>

definition iteration_load_and_clean_data ::
  "iteration_raw list \<Rightarrow> error + (iteration_df \<times> message list)" where
  "iteration_load_and_clean_data raw =
     (if is_object (map iteration_time_ns raw) then Inl TypeError
      else
        let initial_count = length raw;
            df = remove_outliers (unique (map graph_type raw)) raw;
            removed = initial_count - length df;
            printed = (if removed > 0 then [Removed_outliers removed] else []);
            df = map iteration_coerce df;
            df = filter (\<lambda>r. iteration_time_ns r \<noteq> NaN \<and> graph_type r \<noteq> None \<and>
                              degree r \<noteq> NaN) df
        in Inr (df, printed))"

record category_stat =
  avg_time :: fl
  avg_time_per_edge :: fl
  avg_degree_in :: fl
  num_nodes :: nat

record iteration_stat = tagged +
  num_nodes_tested :: nat
  avg_iteration_time_ns :: fl
  median_iteration_time_ns :: fl
  std_iteration_time_ns :: fl
  avg_time_per_edge_ns :: fl
  median_time_per_edge_ns :: fl
  avg_degree :: fl
  by_category :: "(string \<times> category_stat) list"

text \<open>Lines 85-96: the statistics of one degree category inside a group; \<^verbatim>\<open>None\<close> in the
  dictionary is NaN in the frame.\<close>

definition iteration_category_stat :: "iteration_df \<Rightarrow> string \<Rightarrow> string \<times> category_stat" where
  "iteration_category_stat graph_data c =
     (let cat_data = filter (\<lambda>r. key_eq (category r) (Some c)) graph_data
      in (c, if length cat_data > 0
             then \<lparr>avg_time = mean (map iteration_time_ns cat_data),
                   avg_time_per_edge = mean (map time_per_edge_ns cat_data),
                   avg_degree_in = mean (map degree cat_data),
                   num_nodes = length cat_data\<rparr>
             else \<lparr>avg_time = NaN, avg_time_per_edge = NaN, avg_degree_in = NaN,
                   num_nodes = 0\<rparr>))"

definition iteration_group_stat :: "iteration_df \<Rightarrow> key \<Rightarrow> iteration_stat" where
  "iteration_group_stat df g =
     (let graph_data = filter (\<lambda>r. key_eq (graph_type r) g) df
      in \<lparr>graph_type = g,
          num_nodes_tested = length graph_data,
          avg_iteration_time_ns = mean (map iteration_time_ns graph_data),
          median_iteration_time_ns = median (map iteration_time_ns graph_data),
          std_iteration_time_ns = std (map iteration_time_ns graph_data),
          avg_time_per_edge_ns = mean (map time_per_edge_ns graph_data),
          median_time_per_edge_ns = median (map time_per_edge_ns graph_data),
          avg_degree = mean (map degree graph_data),
          by_category = map (iteration_category_stat graph_data)
                          [''sparse'', ''medium'', ''dense'']\<rparr>)"

definition iteration_compute_summary_stats :: "iteration_df \<Rightarrow> error + iteration_stat list" where
  "iteration_compute_summary_stats df =
     sort_values avg_time_per_edge_ns
       (map (iteration_group_stat df) (unique (map graph_type df)))"

text \<open>\<^verbatim>\<open>correlation_analysis\<close>: a dictionary from key to the correlation inside the group.\<close>

definition iteration_correlation_analysis :: "iteration_df \<Rightarrow> (key \<times> npfloat) list" where
  "iteration_correlation_analysis df =
     map (\<lambda>g. let graph_data = filter (\<lambda>r. key_eq (graph_type r) g) df
               in (g, corr (map degree graph_data) (map iteration_time_ns graph_data)))
       (unique (map graph_type df))"

text \<open>Lines 269-275 of \<^verbatim>\<open>create_visualizations\<close>: the list \<^verbatim>\<open>cv_stats\<close> behind chart 7.\<close>

definition iteration_cv_stats :: "iteration_df \<Rightarrow> error + (key \<times> fl) list" where
  "iteration_cv_stats df =
     map_err (\<lambda>g. let graph_data = filter (\<lambda>r. key_eq (graph_type r) g) df
                   in bind_err (cov_percent (map time_per_edge_ns graph_data))
                        (\<lambda>cv. Inr (g, cv)))
       (unique (map graph_type df))"

section \<open>Example tables\<close>

text \<open>
  Small tables for the concrete instances below. A line of \<^verbatim>\<open>benchmark.csv\<close> is given by
  its key, runtime, memory and outcome cells; the other columns hold fixed numbers.
\<close>

definition benchmark_line :: "string \<Rightarrow> cell \<Rightarrow> cell \<Rightarrow> cell \<Rightarrow> benchmark_raw" where
  "benchmark_line g t m p =
     \<lparr>graph_type = Some g, runtime_ms = t, nodes_visited = Number 1,
      edges_relaxed = Number 2, path_length = Number 1, total_weight = Number 1,
      memory_used_bytes = m, path_found = p\<rparr>"

definition benchmark_typed :: "string \<Rightarrow> fl \<Rightarrow> fl \<Rightarrow> bool \<Rightarrow> (fl, bool) benchmark_row" where
  "benchmark_typed g t m p =
     \<lparr>graph_type = Some g, runtime_ms = t, nodes_visited = Num 1,
      edges_relaxed = Num 2, path_length = Num 1, total_weight = Num 1,
      memory_used_bytes = m, path_found = p\<rparr>"

text \<open>A line of \<^verbatim>\<open>iteration.csv\<close>: key, iteration time, time per edge, degree, category.\<close>

definition iteration_line :: "string \<Rightarrow> cell \<Rightarrow> cell \<Rightarrow> cell \<Rightarrow> string \<Rightarrow> iteration_raw" where
  "iteration_line g t e d c =
     \<lparr>graph_type = Some g, iteration_time_ns = t, time_per_edge_ns = e, degree = d,
      category = Some c\<rparr>"

definition iteration_typed :: "string \<Rightarrow> fl \<Rightarrow> fl \<Rightarrow> fl \<Rightarrow> string \<Rightarrow> fl iteration_row" where
  "iteration_typed g t e d c =
     \<lparr>graph_type = Some g, iteration_time_ns = t, time_per_edge_ns = e, degree = d,
      category = Some c\<rparr>"

section \<open>Evaluation and basic facts\<close>

lemmas reduction_defs =
  mean_def var_def std_def median_def quantile_def min_col_def max_col_def mean_bool_def

lemmas benchmark_defs =
  benchmark_line_def benchmark_typed_def benchmark_load_and_clean_data_def is_object_def
  benchmark_coerce_def benchmark_compute_summary_stats_def benchmark_group_stat_def
  cov_percent_def runtime_per_MB_def py_truediv_def sort_values_def sort_column_def
  detect_anomalies_def benchmark_group_outliers_def benchmark_main_def bind_err_def Let_def

lemmas iteration_defs =
  iteration_line_def iteration_typed_def iteration_load_and_clean_data_def is_object_def
  iteration_coerce_def outlier_threshold_def iteration_compute_summary_stats_def
  iteration_group_stat_def iteration_category_stat_def iteration_cv_stats_def
  iteration_correlation_analysis_def cov_percent_def py_truediv_def sort_values_def
  sort_column_def bind_err_def Let_def

lemma bind_err_Inr_iff:
  "bind_err m f = Inr y \<longleftrightarrow> (\<exists>a. m = Inr a \<and> f a = Inr y)"
  by (cases m) (simp_all add: bind_err_def)

lemma to_numeric_gt_zero:
  "\<not> is_text c \<Longrightarrow> fl_gt (to_numeric c) (Num 0) \<longleftrightarrow> (\<exists>x. c = Number x \<and> x > 0)"
  by (cases c) simp_all

lemma fl_gt_zero: "fl_gt v (Num 0) \<longleftrightarrow> (\<exists>x. v = Num x \<and> x > 0)"
  by (cases v) simp_all

subsection \<open>What the benchmark loader returns\<close>

lemma benchmark_load_unfold:
  assumes "benchmark_load_and_clean_data raw = Inr (df, printed)"
  shows "df = filter (\<lambda>r. runtime_ms r \<noteq> NaN \<and> graph_type r \<noteq> None)
               (map benchmark_coerce
                  (filter (\<lambda>r. fl_gt (to_numeric (runtime_ms r)) (Num 0)) raw))"
    and "printed =
           (let removed = length raw -
                  length (filter (\<lambda>r. fl_gt (to_numeric (runtime_ms r)) (Num 0)) raw)
            in if removed > 0 then [Removed_rows removed] else [])"
    and "\<not> is_object (map runtime_ms raw)"
  using assms
  by (auto simp: benchmark_load_and_clean_data_def Let_def split: if_splits)

lemma benchmark_clean_row:
  assumes "benchmark_load_and_clean_data raw = Inr (df, printed)" and "r \<in> set df"
  shows "\<exists>x. runtime_ms r = Num x \<and> x > 0" and "graph_type r \<noteq> None"
proof -
  note df = benchmark_load_unfold(1)[OF assms(1)]
  from assms(2) show "graph_type r \<noteq> None"
    unfolding df by simp
  from assms(2) obtain r0 where r0: "r = benchmark_coerce r0"
      "fl_gt (to_numeric (runtime_ms r0)) (Num 0)"
    unfolding df by auto
  from r0(2) obtain x where "to_numeric (runtime_ms r0) = Num x" "x > 0"
    by (auto simp: fl_gt_zero)
  then show "\<exists>x. runtime_ms r = Num x \<and> x > 0"
    by (simp add: r0(1) benchmark_coerce_def)
qed

lemma group_outliers_no_zero: "Zero_runtime n \<notin> set (benchmark_group_outliers df g)"
  by (simp add: benchmark_group_outliers_def Let_def)

lemma benchmark_example_load:
  "benchmark_load_and_clean_data
     [benchmark_line ''A'' (Number 10) (Number 0) (Number 1),
      benchmark_line ''A'' (Number 0) (Number 0) (Number 1),
      benchmark_line ''B'' (Number 5) (Number 0) (Number 0)] =
   Inr ([benchmark_typed ''A'' (Num 10) (Num 0) True,
         benchmark_typed ''B'' (Num 5) (Num 0) False], [Removed_rows 1])"
  by (simp add: benchmark_defs)

lemma benchmark_example_anomalies:
  "detect_anomalies [benchmark_typed ''A'' (Num 10) (Num 0) True,
                     benchmark_typed ''B'' (Num 5) (Num 0) False] = Inr [Failed_paths 1]"
  by (simp add: benchmark_defs reduction_defs)

text \<open>On a table that has not passed the loader the first check of the anomaly detector
  does fire.\<close>

lemma zero_runtime_check_fires_before_filter:
  "detect_anomalies [benchmark_typed ''A'' (Num 0) (Num 0) True,
                     benchmark_typed ''A'' (Num 0) (Num 0) True] = Inr [Zero_runtime 2]"
  by (simp add: benchmark_defs reduction_defs)

section \<open>Properties of the two pipelines\<close>

text \<open>
  C9. On a table that came out of the benchmark loader no observation has a runtime of
  exactly zero: the count the anomaly detector takes in its first check is 0, and no
  zero-runtime finding is among the findings it returns.
\<close>

theorem zero_runtime_check_silent_on_cleaned_data:
  assumes "benchmark_load_and_clean_data raw = Inr (df, printed)"
    and "detect_anomalies df = Inr anomalies"
  shows "length (filter (\<lambda>r. fl_eq (runtime_ms r) (Num 0)) df) = 0 \<and>
         (\<forall>n. Zero_runtime n \<notin> set anomalies)"
proof -
  have nz: "\<not> fl_eq (runtime_ms r) (Num 0)" if "r \<in> set df" for r
    using benchmark_clean_row(1)[OF assms(1) that] by auto
  then have z: "filter (\<lambda>r. fl_eq (runtime_ms r) (Num 0)) df = []"
    by (simp add: filter_empty_conv)
  from assms(2) obtain stats :: "benchmark_stat list" where
    a: "anomalies =
          concat (map (benchmark_group_outliers df) (unique (map graph_type df))) @
          (if length (filter (\<lambda>r. path_found r = False) df) > 0
           then [Failed_paths (length (filter (\<lambda>r. path_found r = False) df))] else []) @
          (if length (filter (\<lambda>s. fl_gt (coefficient_of_variation s) (Num 30)) stats) > 0
           then [High_variance (map graph_type
                   (filter (\<lambda>s. fl_gt (coefficient_of_variation s) (Num 30)) stats))]
           else [])"
    unfolding detect_anomalies_def Let_def bind_err_Inr_iff z by auto
  have "Zero_runtime n \<notin> set anomalies" for n
    unfolding a by (auto simp: group_outliers_no_zero)
  with z show ?thesis by simp
qed

theorem zero_runtime_check_silent_witness:
  "benchmark_load_and_clean_data
     [benchmark_line ''A'' (Number 10) (Number 0) (Number 1),
      benchmark_line ''A'' (Number 0) (Number 0) (Number 1),
      benchmark_line ''B'' (Number 5) (Number 0) (Number 0)] =
   Inr ([benchmark_typed ''A'' (Num 10) (Num 0) True,
         benchmark_typed ''B'' (Num 5) (Num 0) False], [Removed_rows 1]) \<and>
   detect_anomalies [benchmark_typed ''A'' (Num 10) (Num 0) True,
                     benchmark_typed ''B'' (Num 5) (Num 0) False] = Inr [Failed_paths 1] \<and>
   length (filter (\<lambda>r. fl_eq (runtime_ms r) (Num 0))
             [benchmark_typed ''A'' (Num 10) (Num 0) True,
              benchmark_typed ''B'' (Num 5) (Num 0) False]) = 0 \<and>
   (\<forall>n. Zero_runtime n \<notin> set [Failed_paths 1])"
  using zero_runtime_check_silent_on_cleaned_data
          [OF benchmark_example_load benchmark_example_anomalies]
        benchmark_example_load benchmark_example_anomalies
  by simp

text \<open>
  C1. The benchmark loader keeps exactly the rows whose runtime is a number above 0: a
  row whose runtime is 0 or negative, and also a row whose runtime is missing, is
  dropped before anything else is done. The number of rows dropped there is printed when
  it is positive. The summary, the findings and the correlations of a run are computed
  from the kept rows alone.
\<close>

theorem benchmark_loader_drops_nonpositive_runtimes:
  assumes "benchmark_load_and_clean_data raw = Inr (df, printed)"
  shows "df = filter (\<lambda>r. graph_type r \<noteq> None)
                (map benchmark_coerce
                   (filter (\<lambda>r. \<exists>x. runtime_ms r = Number x \<and> x > 0) raw)) \<and>
         (\<forall>r \<in> set df. \<exists>x. runtime_ms r = Num x \<and> x > 0) \<and>
         printed =
           (if \<exists>r \<in> set raw. \<not> (\<exists>x. runtime_ms r = Number x \<and> x > 0)
            then [Removed_rows
                    (length (filter (\<lambda>r. \<not> (\<exists>x. runtime_ms r = Number x \<and> x > 0)) raw))]
            else []) \<and>
         benchmark_main raw =
           bind_err (benchmark_compute_summary_stats df) (\<lambda>stats_df.
           bind_err (detect_anomalies df) (\<lambda>anomalies.
           Inr (stats_df, anomalies, benchmark_correlation_analysis df, printed)))"
proof -
  let ?pos = "\<lambda>r::benchmark_raw. \<exists>x. runtime_ms r = Number x \<and> x > 0"
  have "\<forall>r \<in> set raw. \<not> is_text (runtime_ms r)"
    using benchmark_load_unfold(3)[OF assms] by (simp add: is_object_def list_ex_iff)
  then have pos: "filter (\<lambda>r. fl_gt (to_numeric (runtime_ms r)) (Num 0)) raw = filter ?pos raw"
    by (intro filter_cong refl) (simp add: to_numeric_gt_zero)
  have rows: "\<forall>r \<in> set df. \<exists>x. runtime_ms r = Num x \<and> x > 0"
    using benchmark_clean_row(1)[OF assms] by blast
  have "df = filter (\<lambda>r. runtime_ms r \<noteq> NaN \<and> graph_type r \<noteq> None)
               (map benchmark_coerce (filter ?pos raw))"
    using benchmark_load_unfold(1)[OF assms] unfolding pos .
  also have "\<dots> = filter (\<lambda>r. graph_type r \<noteq> None) (map benchmark_coerce (filter ?pos raw))"
    by (rule filter_cong) (auto simp: benchmark_coerce_def)
  finally have df: "df = filter (\<lambda>r. graph_type r \<noteq> None)
                          (map benchmark_coerce (filter ?pos raw))" .
  have len: "length raw - length (filter ?pos raw) = length (filter (\<lambda>r. \<not> ?pos r) raw)"
    using sum_length_filter_compl[of ?pos raw] by simp
  have ex: "(0 < length (filter (\<lambda>r. \<not> ?pos r) raw)) = (\<exists>r \<in> set raw. \<not> ?pos r)"
    by (simp add: filter_empty_conv)
  have pr: "printed =
       (if \<exists>r \<in> set raw. \<not> ?pos r
        then [Removed_rows (length (filter (\<lambda>r. \<not> ?pos r) raw))] else [])"
    using benchmark_load_unfold(2)[OF assms] unfolding pos Let_def len ex .
  have main: "benchmark_main raw =
           bind_err (benchmark_compute_summary_stats df) (\<lambda>stats_df.
           bind_err (detect_anomalies df) (\<lambda>anomalies.
           Inr (stats_df, anomalies, benchmark_correlation_analysis df, printed)))"
    by (simp add: benchmark_main_def assms bind_err_def)
  from df rows pr main show ?thesis by blast
qed

theorem benchmark_loader_drops_nonpositive_runtimes_witness:
  "benchmark_load_and_clean_data
     [benchmark_line ''A'' (Number 10) (Number 0) (Number 1),
      benchmark_line ''A'' (Number 0) (Number 0) (Number 1),
      benchmark_line ''B'' (Number 5) (Number 0) (Number 0)] =
   Inr ([benchmark_typed ''A'' (Num 10) (Num 0) True,
         benchmark_typed ''B'' (Num 5) (Num 0) False], [Removed_rows 1]) \<and>
   [Removed_rows 1] =
     [Removed_rows (length (filter (\<lambda>r. \<not> (\<exists>x. runtime_ms r = Number x \<and> x > 0))
        [benchmark_line ''A'' (Number 10) (Number 0) (Number 1),
         benchmark_line ''A'' (Number 0) (Number 0) (Number 1),
         benchmark_line ''B'' (Number 5) (Number 0) (Number 0)]))] \<and>
   benchmark_main
     [benchmark_line ''A'' (Number 10) (Number 0) (Number 1),
      benchmark_line ''A'' (Number 0) (Number 0) (Number 1),
      benchmark_line ''B'' (Number 5) (Number 0) (Number 0)] =
   bind_err (benchmark_compute_summary_stats
               [benchmark_typed ''A'' (Num 10) (Num 0) True,
                benchmark_typed ''B'' (Num 5) (Num 0) False]) (\<lambda>stats_df.
   bind_err (detect_anomalies
               [benchmark_typed ''A'' (Num 10) (Num 0) True,
                benchmark_typed ''B'' (Num 5) (Num 0) False]) (\<lambda>anomalies.
   Inr (stats_df, anomalies,
        benchmark_correlation_analysis
          [benchmark_typed ''A'' (Num 10) (Num 0) True,
           benchmark_typed ''B'' (Num 5) (Num 0) False], [Removed_rows 1])))"
proof -
  note t = benchmark_loader_drops_nonpositive_runtimes [OF benchmark_example_load]
  have "[Removed_rows 1] =
     [Removed_rows (length (filter (\<lambda>r. \<not> (\<exists>x. runtime_ms r = Number x \<and> x > 0))
        [benchmark_line ''A'' (Number 10) (Number 0) (Number 1),
         benchmark_line ''A'' (Number 0) (Number 0) (Number 1),
         benchmark_line ''B'' (Number 5) (Number 0) (Number 0)]))]"
    by (simp add: benchmark_line_def)
  with t benchmark_example_load show ?thesis by blast
qed

text \<open>
  The loader of the iteration pipeline has no such filter. A table with an iteration time
  of 0 and a negative one comes back whole, and nothing is printed about removed rows.
\<close>

theorem iteration_loader_keeps_nonpositive_timings:
  "iteration_load_and_clean_data
     [iteration_line ''A'' (Number 0) (Number 1) (Number 3) ''sparse'',
      iteration_line ''B'' (Number (- 5)) (Number 1) (Number 3) ''sparse''] =
   Inr ([iteration_typed ''A'' (Num 0) (Num 1) (Num 3) ''sparse'',
         iteration_typed ''B'' (Num (- 5)) (Num 1) (Num 3) ''sparse''], [])"
  by (simp add: iteration_defs reduction_defs)

subsection \<open>Keys, groups and the summary rows\<close>

lemma set_unique [simp]: "set (unique xs) = set xs"
  by (induction xs rule: unique.induct) auto

lemma distinct_unique [simp]: "distinct (unique xs)"
  by (induction xs rule: unique.induct) auto

lemma key_eq_Some [simp]: "key_eq k (Some a) \<longleftrightarrow> k = Some a"
  by (cases k) auto

lemma key_eq_iff: "g \<noteq> None \<Longrightarrow> key_eq k g \<longleftrightarrow> k = g"
  by (cases g) auto

lemma key_eq_None [simp]: "\<not> key_eq k None"
  by (cases k) auto

lemma map_err_Inr_iff:
  "map_err f xs = Inr ys \<longleftrightarrow> list_all2 (\<lambda>x y. f x = Inr y) xs ys"
proof (induction xs arbitrary: ys)
  case Nil
  then show ?case by auto
next
  case (Cons x xs)
  show ?case
    by (cases ys) (auto simp: bind_err_Inr_iff Cons.IH)
qed

lemma sort_values_Inr:
  assumes "sort_values column stats = Inr sorted_stats"
  shows "stats \<noteq> []" and "sorted_stats = sort_key (\<lambda>s. sort_column (column s)) stats"
    and "mset sorted_stats = mset stats"
  using assms by (auto simp: sort_values_def split: if_splits)

lemma count_indicator:
  assumes "distinct ks" and "k \<in> set ks"
  shows "sum_list (map (\<lambda>g. if k = g then 1 else 0) ks) = (1::nat)"
  using assms by (induction ks) auto

lemma group_sizes_add_up:
  assumes "distinct ks" and "f ` set xs \<subseteq> set ks"
  shows "sum_list (map (\<lambda>g. length (filter (\<lambda>r. f r = g) xs)) ks) = length xs"
  using assms(2)
proof (induction xs)
  case Nil
  then show ?case by simp
next
  case (Cons x xs)
  then have fx: "f x \<in> set ks" and sub: "f ` set xs \<subseteq> set ks" by auto
  have "sum_list (map (\<lambda>g. length (filter (\<lambda>r. f r = g) (x # xs))) ks) =
        sum_list (map (\<lambda>g. (if f x = g then 1 else 0) + length (filter (\<lambda>r. f r = g) xs)) ks)"
    by (intro arg_cong[where f = sum_list] map_cong) auto
  also have "\<dots> = sum_list (map (\<lambda>g. if f x = g then 1 else 0) ks) +
                   sum_list (map (\<lambda>g. length (filter (\<lambda>r. f r = g) xs)) ks)"
    by (simp add: sum_list_addf)
  also have "\<dots> = 1 + length xs"
    by (simp add: count_indicator[OF assms(1) fx] Cons.IH[OF sub])
  finally show ?case by simp
qed

lemma benchmark_group_stat_fields:
  assumes "benchmark_group_stat df g = Inr s"
  shows "graph_type s = g"
    and "num_queries s = length (filter (\<lambda>r. key_eq (graph_type r) g) df)"
  using assms by (auto simp: benchmark_group_stat_def Let_def bind_err_Inr_iff)

lemma iteration_group_stat_fields:
  shows "graph_type (iteration_group_stat df g) = g"
    and "num_nodes_tested (iteration_group_stat df g) =
           length (filter (\<lambda>r. key_eq (graph_type r) g) df)"
  by (simp_all add: iteration_group_stat_def Let_def)

lemma list_all2_in_right:
  "list_all2 P xs ys \<Longrightarrow> y \<in> set ys \<Longrightarrow> \<exists>x \<in> set xs. P x y"
  by (induction rule: list_all2_induct) auto

text \<open>The rows of a summary before sorting: one per key, in the order of the keys.\<close>

lemma summary_rows:
  assumes rows: "list_all2 (\<lambda>g s. tagged.graph_type s = g \<and> cnt s = length (filter (\<lambda>r. key_eq (tagged.graph_type r) g) df)) (unique (map tagged.graph_type df)) stats"
    and keys: "\<forall>r \<in> set df. tagged.graph_type r \<noteq> None"
  shows "map tagged.graph_type stats = unique (map tagged.graph_type df)"
    and "\<forall>s \<in> set stats. cnt s = length (filter (\<lambda>r. tagged.graph_type r = tagged.graph_type s) df)"
    and "sum_list (map cnt stats) = length df"
proof -
  let ?ks = "unique (map tagged.graph_type df)"
  have some: "g \<noteq> None" if "g \<in> set ?ks" for g
    using that keys by auto
  from rows show m: "map tagged.graph_type stats = ?ks"
    by (induction rule: list_all2_induct) auto
  from rows have c: "map cnt stats = map (\<lambda>g. length (filter (\<lambda>r. key_eq (tagged.graph_type r) g) df)) ?ks"
    by (induction rule: list_all2_induct) auto
  have c': "map cnt stats = map (\<lambda>g. length (filter (\<lambda>r. tagged.graph_type r = g) df)) ?ks"
    unfolding c by (rule map_cong[OF refl]) (simp add: key_eq_iff[OF some])
  show "sum_list (map cnt stats) = length df"
    unfolding c' by (rule group_sizes_add_up) auto
  show "\<forall>s \<in> set stats. cnt s = length (filter (\<lambda>r. tagged.graph_type r = tagged.graph_type s) df)"
  proof
    fix s assume "s \<in> set stats"
    then obtain g where "g \<in> set ?ks" "tagged.graph_type s = g"
      "cnt s = length (filter (\<lambda>r. key_eq (tagged.graph_type r) g) df)"
      using list_all2_in_right[OF rows] by blast
    then show "cnt s = length (filter (\<lambda>r. tagged.graph_type r = tagged.graph_type s) df)"
      by (simp add: key_eq_iff[OF some])
  qed
qed

lemma summary_rows_sorted:
  assumes rows: "list_all2 (\<lambda>g s. tagged.graph_type s = g \<and> cnt s = length (filter (\<lambda>r. key_eq (tagged.graph_type r) g) df)) (unique (map tagged.graph_type df)) unsorted"
    and keys: "\<forall>r \<in> set df. tagged.graph_type r \<noteq> None"
    and perm: "mset stats = mset unsorted"
  shows "distinct (map tagged.graph_type stats) \<and>
         set (map tagged.graph_type stats) = set (map tagged.graph_type df) \<and>
         (\<forall>s \<in> set stats. cnt s = length (filter (\<lambda>r. tagged.graph_type r = tagged.graph_type s) df)) \<and>
         sum_list (map cnt stats) = length df"
proof -
  note u = summary_rows[OF rows keys]
  have k: "mset (map tagged.graph_type stats) = mset (unique (map tagged.graph_type df))"
    using perm u(1) by (metis mset_map)
  have d: "distinct (map tagged.graph_type stats)"
    using mset_eq_imp_distinct_iff[OF k] by simp
  have s: "set (map tagged.graph_type stats) = set (map tagged.graph_type df)"
    using mset_eq_setD[OF k] by simp
  have "mset (map cnt stats) = mset (map cnt unsorted)"
    using perm by (metis mset_map)
  then have "sum_list (map cnt stats) = sum_list (map cnt unsorted)"
    by (metis sum_mset_sum_list)
  then have t: "sum_list (map cnt stats) = length df"
    using u(3) by simp
  have "set stats = set unsorted"
    using mset_eq_setD[OF perm] .
  then have c: "\<forall>s \<in> set stats. cnt s = length (filter (\<lambda>r. tagged.graph_type r = tagged.graph_type s) df)"
    using u(2) by simp
  from d s c t show ?thesis by blast
qed

lemma iteration_load_unfold:
  assumes "iteration_load_and_clean_data raw = Inr (df, printed)"
  shows "df = filter (\<lambda>r. iteration_time_ns r \<noteq> NaN \<and> graph_type r \<noteq> None \<and> degree r \<noteq> NaN)
               (map iteration_coerce (remove_outliers (unique (map graph_type raw)) raw))"
    and "printed =
           (let removed = length raw -
                  length (remove_outliers (unique (map graph_type raw)) raw)
            in if removed > 0 then [Removed_outliers removed] else [])"
    and "\<not> is_object (map iteration_time_ns raw)"
  using assms
  by (auto simp: iteration_load_and_clean_data_def Let_def split: if_splits)

lemma iteration_example_load:
  "iteration_load_and_clean_data
     [iteration_line ''A'' (Number 10) (Number 5) (Number 2) ''sparse'',
      iteration_line ''B'' (Number 5) (Number 10) (Number 1) ''sparse'',
      iteration_line ''A'' (Number 10) (Number 5) Empty ''sparse''] =
   Inr ([iteration_typed ''A'' (Num 10) (Num 5) (Num 2) ''sparse'',
         iteration_typed ''B'' (Num 5) (Num 10) (Num 1) ''sparse''], [])"
  by (simp add: iteration_defs reduction_defs)

definition benchmark_example_summary :: "benchmark_stat list" where
  "benchmark_example_summary =
     [\<lparr>graph_type = Some ''B'', num_queries = 1, avg_runtime_ms = Num 5,
       median_runtime_ms = Num 5, std_runtime_ms = NaN, min_runtime_ms = Num 5,
       max_runtime_ms = Num 5, p95_runtime_ms = Num 5, p99_runtime_ms = Num 5,
       coefficient_of_variation = NaN, avg_nodes_visited = Num 1,
       avg_edges_relaxed = Num 2, avg_path_length = Num 1, success_rate = Num 0,
       avg_memory_MB = Num 0, avg_runtime_per_MB = Num 0\<rparr>,
      \<lparr>graph_type = Some ''A'', num_queries = 1, avg_runtime_ms = Num 10,
       median_runtime_ms = Num 10, std_runtime_ms = NaN, min_runtime_ms = Num 10,
       max_runtime_ms = Num 10, p95_runtime_ms = Num 10, p99_runtime_ms = Num 10,
       coefficient_of_variation = NaN, avg_nodes_visited = Num 1,
       avg_edges_relaxed = Num 2, avg_path_length = Num 1, success_rate = Num 100,
       avg_memory_MB = Num 0, avg_runtime_per_MB = Num 0\<rparr>]"

lemma benchmark_example_stats:
  "benchmark_compute_summary_stats
     [benchmark_typed ''A'' (Num 10) (Num 0) True,
      benchmark_typed ''B'' (Num 5) (Num 0) False] = Inr benchmark_example_summary"
  by (simp add: benchmark_defs reduction_defs benchmark_example_summary_def)

definition empty_category :: category_stat where
  "empty_category = \<lparr>avg_time = NaN, avg_time_per_edge = NaN, avg_degree_in = NaN, num_nodes = 0\<rparr>"

definition iteration_example_summary :: "iteration_stat list" where
  "iteration_example_summary =
     [\<lparr>graph_type = Some ''A'', num_nodes_tested = 1, avg_iteration_time_ns = Num 10,
       median_iteration_time_ns = Num 10, std_iteration_time_ns = NaN,
       avg_time_per_edge_ns = Num 5, median_time_per_edge_ns = Num 5, avg_degree = Num 2,
       by_category =
         [(''sparse'', \<lparr>avg_time = Num 10, avg_time_per_edge = Num 5,
                        avg_degree_in = Num 2, num_nodes = 1\<rparr>),
          (''medium'', empty_category), (''dense'', empty_category)]\<rparr>,
      \<lparr>graph_type = Some ''B'', num_nodes_tested = 1, avg_iteration_time_ns = Num 5,
       median_iteration_time_ns = Num 5, std_iteration_time_ns = NaN,
       avg_time_per_edge_ns = Num 10, median_time_per_edge_ns = Num 10, avg_degree = Num 1,
       by_category =
         [(''sparse'', \<lparr>avg_time = Num 5, avg_time_per_edge = Num 10,
                        avg_degree_in = Num 1, num_nodes = 1\<rparr>),
          (''medium'', empty_category), (''dense'', empty_category)]\<rparr>]"

lemma iteration_example_stats:
  "iteration_compute_summary_stats
     [iteration_typed ''A'' (Num 10) (Num 5) (Num 2) ''sparse'',
      iteration_typed ''B'' (Num 5) (Num 10) (Num 1) ''sparse''] = Inr iteration_example_summary"
  by (simp add: iteration_defs reduction_defs iteration_example_summary_def empty_category_def)






text \<open>
  C5. The summary of a cleaned table has one row for each key of the table and no two
  rows for one key; the count of a row is the number of cleaned rows with its key; the
  counts add up to the number of cleaned rows. This holds for the benchmark summary
  (\<^verbatim>\<open>num_queries\<close>) and for the iteration summary (\<^verbatim>\<open>num_nodes_tested\<close>).
\<close>

theorem summary_counts_partition_cleaned_rows:
  assumes "benchmark_load_and_clean_data b_raw = Inr (b_df, b_printed)"
    and "benchmark_compute_summary_stats b_df = Inr b_stats"
    and "iteration_load_and_clean_data i_raw = Inr (i_df, i_printed)"
    and "iteration_compute_summary_stats i_df = Inr i_stats"
  shows "(distinct (map graph_type b_stats) \<and>
          set (map graph_type b_stats) = set (map graph_type b_df) \<and>
          (\<forall>s \<in> set b_stats.
             num_queries s = length (filter (\<lambda>r. graph_type r = graph_type s) b_df)) \<and>
          sum_list (map num_queries b_stats) = length b_df) \<and>
         (distinct (map graph_type i_stats) \<and>
          set (map graph_type i_stats) = set (map graph_type i_df) \<and>
          (\<forall>s \<in> set i_stats.
             num_nodes_tested s = length (filter (\<lambda>r. graph_type r = graph_type s) i_df)) \<and>
          sum_list (map num_nodes_tested i_stats) = length i_df)"
proof
  have b_keys: "\<forall>r \<in> set b_df. graph_type r \<noteq> None"
    using benchmark_clean_row(2)[OF assms(1)] by blast
  from assms(2) obtain unsorted where
    u: "map_err (benchmark_group_stat b_df) (unique (map graph_type b_df)) = Inr unsorted"
    and s: "sort_values avg_runtime_ms unsorted = Inr b_stats"
    by (auto simp: benchmark_compute_summary_stats_def bind_err_Inr_iff)
  have "list_all2 (\<lambda>g s. graph_type s = g \<and>
            num_queries s = length (filter (\<lambda>r. key_eq (graph_type r) g) b_df))
          (unique (map graph_type b_df)) unsorted"
    using u unfolding map_err_Inr_iff
    by (rule list_all2_mono) (simp add: benchmark_group_stat_fields)
  from summary_rows_sorted[OF this b_keys sort_values_Inr(3)[OF s]]
  show "distinct (map graph_type b_stats) \<and>
        set (map graph_type b_stats) = set (map graph_type b_df) \<and>
        (\<forall>s \<in> set b_stats.
           num_queries s = length (filter (\<lambda>r. graph_type r = graph_type s) b_df)) \<and>
        sum_list (map num_queries b_stats) = length b_df" .
next
  have i_keys: "\<forall>r \<in> set i_df. graph_type r \<noteq> None"
    unfolding iteration_load_unfold(1)[OF assms(3)] by simp
  let ?unsorted = "map (iteration_group_stat i_df) (unique (map graph_type i_df))"
  have s: "sort_values avg_time_per_edge_ns ?unsorted = Inr i_stats"
    using assms(4) by (simp add: iteration_compute_summary_stats_def)
  have "list_all2 (\<lambda>g s. graph_type s = g \<and>
            num_nodes_tested s = length (filter (\<lambda>r. key_eq (graph_type r) g) i_df))
          (unique (map graph_type i_df)) ?unsorted"
    by (simp add: list_all2_conv_all_nth iteration_group_stat_fields)
  from summary_rows_sorted[OF this i_keys sort_values_Inr(3)[OF s]]
  show "distinct (map graph_type i_stats) \<and>
        set (map graph_type i_stats) = set (map graph_type i_df) \<and>
        (\<forall>s \<in> set i_stats.
           num_nodes_tested s = length (filter (\<lambda>r. graph_type r = graph_type s) i_df)) \<and>
        sum_list (map num_nodes_tested i_stats) = length i_df" .
qed

theorem summary_counts_partition_witness:
  "benchmark_load_and_clean_data
     [benchmark_line ''A'' (Number 10) (Number 0) (Number 1),
      benchmark_line ''A'' (Number 0) (Number 0) (Number 1),
      benchmark_line ''B'' (Number 5) (Number 0) (Number 0)] =
   Inr ([benchmark_typed ''A'' (Num 10) (Num 0) True,
         benchmark_typed ''B'' (Num 5) (Num 0) False], [Removed_rows 1]) \<and>
   benchmark_compute_summary_stats
     [benchmark_typed ''A'' (Num 10) (Num 0) True,
      benchmark_typed ''B'' (Num 5) (Num 0) False] = Inr benchmark_example_summary \<and>
   iteration_load_and_clean_data
     [iteration_line ''A'' (Number 10) (Number 5) (Number 2) ''sparse'',
      iteration_line ''B'' (Number 5) (Number 10) (Number 1) ''sparse'',
      iteration_line ''A'' (Number 10) (Number 5) Empty ''sparse''] =
   Inr ([iteration_typed ''A'' (Num 10) (Num 5) (Num 2) ''sparse'',
         iteration_typed ''B'' (Num 5) (Num 10) (Num 1) ''sparse''], []) \<and>
   iteration_compute_summary_stats
     [iteration_typed ''A'' (Num 10) (Num 5) (Num 2) ''sparse'',
      iteration_typed ''B'' (Num 5) (Num 10) (Num 1) ''sparse''] =
   Inr iteration_example_summary \<and>
   map num_queries benchmark_example_summary = [1, 1] \<and>
   sum_list (map num_queries benchmark_example_summary) = 2 \<and>
   sum_list (map num_nodes_tested iteration_example_summary) = 2"
  using summary_counts_partition_cleaned_rows
          [OF benchmark_example_load benchmark_example_stats
              iteration_example_load iteration_example_stats]
        benchmark_example_load benchmark_example_stats
        iteration_example_load iteration_example_stats
  by (simp add: benchmark_example_summary_def)

subsection \<open>The guarded divisions never fail\<close>

lemma cov_percent_value:
  "cov_percent col =
     Inr (if fl_gt (mean col) (Num 0)
          then (case (std col, mean col) of
                  (Some s, Some m) \<Rightarrow> Num (s / m * 100) | _ \<Rightarrow> NaN)
          else Num 0)"
  by (cases "mean col"; cases "std col")
     (auto simp: cov_percent_def py_truediv_def bind_err_def)

lemma memory_MB_value:
  "py_truediv m (Num (1024 * 1024)) = Inr (map_option (\<lambda>x. x / (1024 * 1024)) m)"
  by (cases m) (auto simp: py_truediv_def)

lemma runtime_per_MB_value:
  "runtime_per_MB runtime memory =
     Inr (if fl_gt (mean memory) (Num 0)
          then (case (mean runtime, mean memory) of
                  (Some t, Some m) \<Rightarrow> Num (t / (m / (1024 * 1024))) | _ \<Rightarrow> NaN)
          else Num 0)"
  by (cases "mean memory"; cases "mean runtime")
     (auto simp: runtime_per_MB_def py_truediv_def bind_err_def)

lemma bind_err_Inr [simp]: "bind_err (Inr a) f = f a"
  by (simp add: bind_err_def)

lemma bind_err_Inl [simp]: "bind_err (Inl e) f = Inl e"
  by (simp add: bind_err_def)

text \<open>The row of one key, with the three guarded fields written out.\<close>

lemma benchmark_group_stat_value:
  "\<exists>s. benchmark_group_stat df g = Inr s \<and>
       coefficient_of_variation s =
         (let runtime = map runtime_ms (filter (\<lambda>r. key_eq (graph_type r) g) df)
          in if fl_gt (mean runtime) (Num 0)
             then (case (std runtime, mean runtime) of
                     (Some s, Some m) \<Rightarrow> Num (s / m * 100) | _ \<Rightarrow> NaN)
             else Num 0) \<and>
       avg_runtime_per_MB s =
         (let runtime = map runtime_ms (filter (\<lambda>r. key_eq (graph_type r) g) df);
              memory = map memory_used_bytes (filter (\<lambda>r. key_eq (graph_type r) g) df)
          in if fl_gt (mean memory) (Num 0)
             then (case (mean runtime, mean memory) of
                     (Some t, Some m) \<Rightarrow> Num (t / (m / (1024 * 1024))) | _ \<Rightarrow> NaN)
             else Num 0)"
  unfolding benchmark_group_stat_def Let_def cov_percent_value memory_MB_value
    runtime_per_MB_value bind_err_Inr
  by simp

lemma benchmark_group_stat_total: "\<exists>s. benchmark_group_stat df g = Inr s"
  using benchmark_group_stat_value[of df g] by blast

lemma map_err_total:
  assumes "\<And>x. \<exists>y. f x = Inr y"
  shows "\<exists>ys. map_err f xs = Inr ys"
proof (induction xs)
  case Nil
  then show ?case by simp
next
  case (Cons x xs)
  then obtain ys where "map_err f xs = Inr ys" by blast
  moreover obtain y where "f x = Inr y" using assms by blast
  ultimately show ?case by (simp add: bind_err_def)
qed

lemma map_err_length: "map_err f xs = Inr ys \<Longrightarrow> length ys = length xs"
  by (simp add: map_err_Inr_iff list_all2_lengthD)

lemma unique_eq_Nil [simp]: "unique xs = [] \<longleftrightarrow> xs = []"
  by (cases xs) auto

lemma benchmark_summary_raises:
  "benchmark_compute_summary_stats df = Inl e \<longleftrightarrow> df = [] \<and> e = KeyError"
proof -
  obtain unsorted where
    u: "map_err (benchmark_group_stat df) (unique (map graph_type df)) = Inr unsorted"
    using map_err_total[of "benchmark_group_stat df"] benchmark_group_stat_total by blast
  have "unsorted = [] \<longleftrightarrow> df = []"
    using map_err_length[OF u] by auto
  then show ?thesis
    by (auto simp: benchmark_compute_summary_stats_def u bind_err_def sort_values_def)
qed

text \<open>
  C8. In every row of the benchmark summary \<^verbatim>\<open>avg_runtime_per_MB\<close> is 0 when the mean of
  the group's memory column is 0. Computing the row raises nothing, for any table and any
  key: the division is made only when that mean is above 0, and the only exception the
  aggregator can raise at all is the \<^verbatim>\<open>KeyError\<close> of sorting the summary of an empty
  table.
\<close>

theorem runtime_per_MB_zero_when_memory_mean_zero:
  "(\<exists>s. benchmark_group_stat df g = Inr s \<and>
        (mean (map memory_used_bytes (filter (\<lambda>r. key_eq (graph_type r) g) df)) = Num 0
           \<longrightarrow> avg_runtime_per_MB s = Num 0)) \<and>
   benchmark_compute_summary_stats df \<noteq> Inl ZeroDivisionError"
proof
  obtain s where s: "benchmark_group_stat df g = Inr s"
    and r: "avg_runtime_per_MB s =
         (let runtime = map runtime_ms (filter (\<lambda>r. key_eq (graph_type r) g) df);
              memory = map memory_used_bytes (filter (\<lambda>r. key_eq (graph_type r) g) df)
          in if fl_gt (mean memory) (Num 0)
             then (case (mean runtime, mean memory) of
                     (Some t, Some m) \<Rightarrow> Num (t / (m / (1024 * 1024))) | _ \<Rightarrow> NaN)
             else Num 0)"
    using benchmark_group_stat_value[of df g] by blast
  have "avg_runtime_per_MB s = Num 0"
    if "mean (map memory_used_bytes (filter (\<lambda>r. key_eq (graph_type r) g) df)) = Num 0"
    unfolding r Let_def that by simp
  with s show "\<exists>s. benchmark_group_stat df g = Inr s \<and>
        (mean (map memory_used_bytes (filter (\<lambda>r. key_eq (graph_type r) g) df)) = Num 0
           \<longrightarrow> avg_runtime_per_MB s = Num 0)"
    by blast
  show "benchmark_compute_summary_stats df \<noteq> Inl ZeroDivisionError"
    by (simp add: benchmark_summary_raises)
qed

theorem runtime_per_MB_zero_witness:
  "mean (map memory_used_bytes (filter (\<lambda>r. key_eq (graph_type r) (Some ''A''))
     [benchmark_typed ''A'' (Num 10) (Num 0) True,
      benchmark_typed ''B'' (Num 5) (Num 0) False])) = Num 0 \<and>
   (\<exists>s. benchmark_group_stat
           [benchmark_typed ''A'' (Num 10) (Num 0) True,
            benchmark_typed ''B'' (Num 5) (Num 0) False] (Some ''A'') = Inr s \<and>
        avg_runtime_per_MB s = Num 0)"
proof -
  have m: "mean (map memory_used_bytes (filter (\<lambda>r. key_eq (graph_type r) (Some ''A''))
     [benchmark_typed ''A'' (Num 10) (Num 0) True,
      benchmark_typed ''B'' (Num 5) (Num 0) False])) = Num 0"
    by (simp add: benchmark_typed_def mean_def)
  show ?thesis
    using runtime_per_MB_zero_when_memory_mean_zero
            [of "[benchmark_typed ''A'' (Num 10) (Num 0) True,
                  benchmark_typed ''B'' (Num 5) (Num 0) False]" "Some ''A''"] m
    by blast
qed

subsection \<open>Sign of the spread\<close>

lemma var_nonneg: "var col = Num v \<Longrightarrow> 0 \<le> v"
  by (auto simp: var_def Let_def split: if_splits
      intro!: divide_nonneg_nonneg sum_list_nonneg)

lemma std_nonneg: "std col = Num s \<Longrightarrow> 0 \<le> s"
  by (auto simp: std_def dest: var_nonneg)

lemma std_defined: "2 \<le> length (dropna_values col) \<Longrightarrow> \<exists>s. std col = Num s"
  by (simp add: std_def var_def Let_def)


lemma cov_percent_sign:
  assumes "cov_percent col = Inr cv"
  shows "cv = NaN \<or> fl_ge cv (Num 0)"
proof (cases "std col")
  case None
  then show ?thesis
    using assms unfolding cov_percent_value by (auto split: if_splits)
next
  case (Some s)
  have "0 \<le> s" using std_nonneg[OF Some] .
  then have "0 \<le> s / m * 100" if "0 < m" for m
    using that by simp
  then show ?thesis
    using assms unfolding cov_percent_value
    by (cases "mean col") (auto simp: Some split: if_splits)
qed

lemma cov_percent_single:
  assumes "length (dropna_values col) = 1" and "fl_gt (mean col) (Num 0)"
  shows "cov_percent col = Inr NaN"
proof -
  have "std col = NaN" using assms(1) by (simp add: std_def var_def)
  then show ?thesis using assms(2) by (simp add: cov_percent_value)
qed

lemma benchmark_group_stat_cov:
  assumes "benchmark_group_stat df g = Inr s"
  shows "cov_percent (map runtime_ms (filter (\<lambda>r. key_eq (graph_type r) g) df)) =
           Inr (coefficient_of_variation s)"
  using assms
  by (auto simp: benchmark_group_stat_def Let_def bind_err_Inr_iff)

text \<open>
  C2. The coefficient of variation of a column is \<open>std / mean * 100\<close> when the mean is
  above 0 and is 0 otherwise (mean 0, negative or NaN). It is never negative: it is NaN
  or at least 0, and it is NaN for a column that holds a single value, above 0. This is
  the field \<^verbatim>\<open>coefficient_of_variation\<close> of every row of the benchmark summary, for the
  group's runtimes, and the entry of every key in \<^verbatim>\<open>cv_stats\<close> of the iteration charts,
  for the group's times per edge.
\<close>

theorem coefficient_of_variation_formula_and_sign:
  "(\<exists>cv. cov_percent col = Inr cv \<and>
      (fl_gt (mean col) (Num 0) \<longrightarrow>
         cv = (case (std col, mean col) of
                 (Some s, Some m) \<Rightarrow> Num (s / m * 100) | _ \<Rightarrow> NaN)) \<and>
      (\<not> fl_gt (mean col) (Num 0) \<longrightarrow> cv = Num 0) \<and>
      (cv = NaN \<or> fl_ge cv (Num 0)) \<and>
      (length (dropna_values col) = 1 \<and> fl_gt (mean col) (Num 0) \<longrightarrow> cv = NaN)) \<and>
   (\<forall>s. benchmark_group_stat b_df g = Inr s \<longrightarrow>
      cov_percent (map runtime_ms (filter (\<lambda>r. key_eq (graph_type r) g) b_df)) =
        Inr (coefficient_of_variation s)) \<and>
   (\<forall>cvs. iteration_cv_stats i_df = Inr cvs \<longrightarrow>
      map fst cvs = unique (map graph_type i_df) \<and>
      (\<forall>(k, cv) \<in> set cvs.
         cov_percent (map time_per_edge_ns (filter (\<lambda>r. key_eq (graph_type r) k) i_df)) =
           Inr cv))"
proof (intro conjI allI impI)
  show "\<exists>cv. cov_percent col = Inr cv \<and>
      (fl_gt (mean col) (Num 0) \<longrightarrow>
         cv = (case (std col, mean col) of
                 (Some s, Some m) \<Rightarrow> Num (s / m * 100) | _ \<Rightarrow> NaN)) \<and>
      (\<not> fl_gt (mean col) (Num 0) \<longrightarrow> cv = Num 0) \<and>
      (cv = NaN \<or> fl_ge cv (Num 0)) \<and>
      (length (dropna_values col) = 1 \<and> fl_gt (mean col) (Num 0) \<longrightarrow> cv = NaN)"
    using cov_percent_sign[of col] cov_percent_single[of col]
    by (simp add: cov_percent_value)
next
  fix s assume "benchmark_group_stat b_df g = Inr s"
  then show "cov_percent (map runtime_ms (filter (\<lambda>r. key_eq (graph_type r) g) b_df)) =
        Inr (coefficient_of_variation s)"
    by (rule benchmark_group_stat_cov)
next
  fix cvs assume "iteration_cv_stats i_df = Inr cvs"
  then have l: "list_all2 (\<lambda>k p.
       \<exists>cv. cov_percent (map time_per_edge_ns (filter (\<lambda>r. key_eq (graph_type r) k) i_df)) = Inr cv \<and>
            p = (k, cv)) (unique (map graph_type i_df)) cvs"
    unfolding iteration_cv_stats_def map_err_Inr_iff Let_def bind_err_Inr_iff
    by (rule list_all2_mono) auto
  then show "map fst cvs = unique (map graph_type i_df)"
    by (induction rule: list_all2_induct) auto
  show "\<forall>(k, cv) \<in> set cvs.
         cov_percent (map time_per_edge_ns (filter (\<lambda>r. key_eq (graph_type r) k) i_df)) =
           Inr cv"
    using list_all2_in_right[OF l] by fastforce
qed

lemma three_values_cov: "cov_percent [Num 2, Num 4, Num 6] = Inr (Num 50)"
  by (simp add: cov_percent_def reduction_defs py_truediv_def Let_def)

lemma three_rows_cov:
  "\<exists>s. benchmark_group_stat
          [benchmark_typed ''A'' (Num 2) (Num 0) True,
           benchmark_typed ''A'' (Num 4) (Num 0) True,
           benchmark_typed ''A'' (Num 6) (Num 0) True] (Some ''A'') = Inr s \<and>
        coefficient_of_variation s = Num 50"
  by (simp add: benchmark_defs reduction_defs)

lemma iteration_example_cv:
  "iteration_cv_stats
     [iteration_typed ''A'' (Num 10) (Num 2) (Num 2) ''sparse'',
      iteration_typed ''B'' (Num 5) (Num 10) (Num 1) ''sparse'',
      iteration_typed ''A'' (Num 10) (Num 4) (Num 2) ''sparse'',
      iteration_typed ''A'' (Num 10) (Num 6) (Num 2) ''sparse''] =
   Inr [(Some ''A'', Num 50), (Some ''B'', NaN)]"
  by (simp add: iteration_defs reduction_defs)

theorem coefficient_of_variation_witness:
  "fl_gt (mean [Num 2, Num 4, Num 6]) (Num 0) \<and>
   cov_percent [Num 2, Num 4, Num 6] = Inr (Num 50) \<and>
   fl_ge (Num 50) (Num 0) \<and>
   \<not> fl_gt (mean [Num 0, NaN]) (Num 0) \<and>
   cov_percent [Num 0, NaN] = Inr (Num 0) \<and>
   length (dropna_values [Num 10]) = 1 \<and> fl_gt (mean [Num 10]) (Num 0) \<and>
   cov_percent [Num 10] = Inr NaN \<and>
   (\<exists>s. benchmark_group_stat
          [benchmark_typed ''A'' (Num 2) (Num 0) True,
           benchmark_typed ''A'' (Num 4) (Num 0) True,
           benchmark_typed ''A'' (Num 6) (Num 0) True] (Some ''A'') = Inr s \<and>
        cov_percent (map runtime_ms (filter (\<lambda>r. key_eq (graph_type r) (Some ''A''))
          [benchmark_typed ''A'' (Num 2) (Num 0) True,
           benchmark_typed ''A'' (Num 4) (Num 0) True,
           benchmark_typed ''A'' (Num 6) (Num 0) True])) =
        Inr (coefficient_of_variation s)) \<and>
   iteration_cv_stats
     [iteration_typed ''A'' (Num 10) (Num 2) (Num 2) ''sparse'',
      iteration_typed ''B'' (Num 5) (Num 10) (Num 1) ''sparse'',
      iteration_typed ''A'' (Num 10) (Num 4) (Num 2) ''sparse'',
      iteration_typed ''A'' (Num 10) (Num 6) (Num 2) ''sparse''] =
   Inr [(Some ''A'', Num 50), (Some ''B'', NaN)] \<and>
   cov_percent (map time_per_edge_ns (filter (\<lambda>r. key_eq (graph_type r) (Some ''A''))
     [iteration_typed ''A'' (Num 10) (Num 2) (Num 2) ''sparse'',
      iteration_typed ''B'' (Num 5) (Num 10) (Num 1) ''sparse'',
      iteration_typed ''A'' (Num 10) (Num 4) (Num 2) ''sparse'',
      iteration_typed ''A'' (Num 10) (Num 6) (Num 2) ''sparse''])) = Inr (Num 50)"
proof -
  let ?b = "[benchmark_typed ''A'' (Num 2) (Num 0) True,
             benchmark_typed ''A'' (Num 4) (Num 0) True,
             benchmark_typed ''A'' (Num 6) (Num 0) True]"
  let ?i = "[iteration_typed ''A'' (Num 10) (Num 2) (Num 2) ''sparse'',
             iteration_typed ''B'' (Num 5) (Num 10) (Num 1) ''sparse'',
             iteration_typed ''A'' (Num 10) (Num 4) (Num 2) ''sparse'',
             iteration_typed ''A'' (Num 10) (Num 6) (Num 2) ''sparse'']"
  note t1 = coefficient_of_variation_formula_and_sign
              [of "[Num 2, Num 4, Num 6]" ?b "Some ''A''" ?i]
  note t2 = coefficient_of_variation_formula_and_sign
              [of "[Num 0, NaN]" ?b "Some ''A''" ?i]
  note t3 = coefficient_of_variation_formula_and_sign
              [of "[Num 10]" ?b "Some ''A''" ?i]
  have m1: "fl_gt (mean [Num 2, Num 4, Num 6]) (Num 0)"
    and m2: "\<not> fl_gt (mean [Num 0, NaN]) (Num 0)"
    and n3: "length (dropna_values [Num 10]) = 1"
    and m3: "fl_gt (mean [Num 10]) (Num 0)"
    by (simp_all add: mean_def)
  from t1 m1 have c1: "cov_percent [Num 2, Num 4, Num 6] = Inr (Num 50)"
    by (simp add: three_values_cov)
  from t2 m2 have c2: "cov_percent [Num 0, NaN] = Inr (Num 0)"
    by auto
  from t3 n3 m3 have c5: "cov_percent [Num 10] = Inr NaN"
    by auto
  obtain s where s: "benchmark_group_stat ?b (Some ''A'') = Inr s"
    using three_rows_cov by blast
  with t1 have c3: "cov_percent (map runtime_ms (filter (\<lambda>r. key_eq (graph_type r) (Some ''A'')) ?b)) =
        Inr (coefficient_of_variation s)"
    by blast
  from t1 iteration_example_cv
  have c4: "cov_percent (map time_per_edge_ns (filter (\<lambda>r. key_eq (graph_type r) (Some ''A'')) ?i)) =
        Inr (Num 50)"
    by fastforce
  from m1 c1 m2 c2 n3 m3 c5 s c3 c4 iteration_example_cv show ?thesis
    by (intro conjI exI[of _ s]) simp_all
qed

text \<open>
  A group of one row has no sample standard deviation: \<^verbatim>\<open>std()\<close> is NaN, and with a
  positive mean the coefficient of variation is NaN, which is not at least 0.
\<close>

theorem single_row_group_cov_is_nan:
  "benchmark_load_and_clean_data [benchmark_line ''A'' (Number 10) (Number 0) (Number 1)] =
     Inr ([benchmark_typed ''A'' (Num 10) (Num 0) True], []) \<and>
   benchmark_compute_summary_stats [benchmark_typed ''A'' (Num 10) (Num 0) True] =
     Inr [\<lparr>graph_type = Some ''A'', num_queries = 1, avg_runtime_ms = Num 10,
           median_runtime_ms = Num 10, std_runtime_ms = NaN, min_runtime_ms = Num 10,
           max_runtime_ms = Num 10, p95_runtime_ms = Num 10, p99_runtime_ms = Num 10,
           coefficient_of_variation = NaN, avg_nodes_visited = Num 1,
           avg_edges_relaxed = Num 2, avg_path_length = Num 1, success_rate = Num 100,
           avg_memory_MB = Num 0, avg_runtime_per_MB = Num 0\<rparr>] \<and>
   \<not> fl_ge NaN (Num 0)"
  by (simp add: benchmark_defs reduction_defs)

subsection \<open>Order of the summary\<close>














subsection \<open>The outlier loop of the iteration loader\<close>

text \<open>Whether the round of key \<open>g\<close> removes row \<open>r\<close>, with the threshold taken from \<open>df\<close>.\<close>

definition is_outlier :: "iteration_raw list \<Rightarrow> key \<Rightarrow> iteration_raw \<Rightarrow> bool" where
  "is_outlier df g r \<longleftrightarrow>
     key_eq (graph_type r) g \<and>
     fl_gt (to_numeric (iteration_time_ns r)) (outlier_threshold df g)"

lemma key_eq_same: "key_eq k g \<Longrightarrow> key_eq k g' \<Longrightarrow> g = g'"
  by (cases k; cases g; cases g') auto

lemma key_eq_self: "key_eq k g \<Longrightarrow> k = g"
  by (cases k; cases g) auto

text \<open>A round leaves the rows of every other key alone, and with them its threshold.\<close>

lemma other_group_untouched:
  assumes "g' \<noteq> g"
  shows "filter (\<lambda>r. key_eq (graph_type r) g') (filter (\<lambda>r. \<not> is_outlier df0 g r) df) =
         filter (\<lambda>r. key_eq (graph_type r) g') df"
  unfolding filter_filter
  by (rule filter_cong) (use assms in \<open>auto simp: is_outlier_def dest: key_eq_same\<close>)

lemma outlier_threshold_cong:
  assumes "filter (\<lambda>r. key_eq (graph_type r) g) df' = filter (\<lambda>r. key_eq (graph_type r) g) df"
  shows "outlier_threshold df' g = outlier_threshold df g"
  by (simp add: outlier_threshold_def assms)

lemma is_outlier_cong:
  assumes "outlier_threshold df' g = outlier_threshold df g"
  shows "is_outlier df' g r = is_outlier df g r"
  unfolding is_outlier_def assms ..

lemma remove_outliers_step:
  "remove_outliers (g # gs) df = remove_outliers gs (filter (\<lambda>r. \<not> is_outlier df g r) df)"
  by (simp add: is_outlier_def)

lemma remove_outliers_closed_form:
  assumes "distinct ks"
  shows "remove_outliers ks df = filter (\<lambda>r. \<not> (\<exists>g \<in> set ks. is_outlier df g r)) df"
  using assms
proof (induction ks arbitrary: df)
  case Nil
  then show ?case by simp
next
  case (Cons g gs)
  let ?df1 = "filter (\<lambda>r. \<not> is_outlier df g r) df"
  have thr: "outlier_threshold ?df1 g' = outlier_threshold df g'" if "g' \<in> set gs" for g'
  proof -
    have "g' \<noteq> g" using that Cons.prems by auto
    then show ?thesis
      by (intro outlier_threshold_cong other_group_untouched)
  qed
  have same: "(\<exists>g' \<in> set gs. is_outlier ?df1 g' r) = (\<exists>g' \<in> set gs. is_outlier df g' r)" for r
    by (intro bex_cong refl is_outlier_cong thr)
  have "remove_outliers (g # gs) df = remove_outliers gs ?df1"
    by (rule remove_outliers_step)
  also have "\<dots> = filter (\<lambda>r. \<not> (\<exists>g' \<in> set gs. is_outlier ?df1 g' r)) ?df1"
    using Cons.prems by (intro Cons.IH) simp
  also have "\<dots> = filter (\<lambda>r. \<not> (\<exists>g' \<in> set (g # gs). is_outlier df g' r)) df"
    unfolding same filter_filter by (rule filter_cong) auto
  finally show ?case .
qed

lemma remove_outliers_append:
  "remove_outliers (ks1 @ ks2) df = remove_outliers ks2 (remove_outliers ks1 df)"
  by (induction ks1 arbitrary: df) simp_all

lemma group_untouched_before_its_round:
  assumes "distinct ks" and "g \<notin> set ks"
  shows "filter (\<lambda>r. key_eq (graph_type r) g) (remove_outliers ks df) =
         filter (\<lambda>r. key_eq (graph_type r) g) df"
  unfolding remove_outliers_closed_form[OF assms(1)] filter_filter
  by (rule filter_cong) (use assms(2) in \<open>auto simp: is_outlier_def dest: key_eq_same\<close>)

lemma outlier_of_own_group:
  assumes "graph_type r \<in> set ks"
  shows "(\<exists>g \<in> set ks. is_outlier df g r) \<longleftrightarrow>
         fl_gt (to_numeric (iteration_time_ns r)) (outlier_threshold df (graph_type r))"
proof
  assume "\<exists>g \<in> set ks. is_outlier df g r"
  then obtain g where "key_eq (graph_type r) g"
    "fl_gt (to_numeric (iteration_time_ns r)) (outlier_threshold df g)"
    by (auto simp: is_outlier_def)
  then show "fl_gt (to_numeric (iteration_time_ns r)) (outlier_threshold df (graph_type r))"
    using key_eq_self by fastforce
next
  assume gt: "fl_gt (to_numeric (iteration_time_ns r)) (outlier_threshold df (graph_type r))"
  have "graph_type r \<noteq> None"
  proof
    assume "graph_type r = None"
    then have "outlier_threshold df (graph_type r) = NaN"
      by (simp add: outlier_threshold_def mean_def)
    with gt show False by (cases "to_numeric (iteration_time_ns r)") auto
  qed
  then have "key_eq (graph_type r) (graph_type r)"
    by (simp add: key_eq_iff)
  with gt assms show "\<exists>g \<in> set ks. is_outlier df g r"
    by (auto simp: is_outlier_def)
qed

text \<open>
  C10. Let the loop of the iteration loader run over the keys of the table in any order,
  each key once. When the round of a key starts, the frame still holds all original rows
  of that key, so the threshold of the round is the one computed from the original table.
  The frame after the loop is the original table without the rows that exceed the
  threshold of their own key, whatever the order, and so it is the frame the loader gets
  with the order of \<^verbatim>\<open>unique()\<close>.
\<close>

theorem outlier_removal_is_group_independent:
  assumes "distinct ks" and "set ks = set (map graph_type raw)"
  shows "(\<forall>ks1 g ks2. ks = ks1 @ g # ks2 \<longrightarrow>
            filter (\<lambda>r. key_eq (graph_type r) g) (remove_outliers ks1 raw) =
              filter (\<lambda>r. key_eq (graph_type r) g) raw \<and>
            outlier_threshold (remove_outliers ks1 raw) g = outlier_threshold raw g) \<and>
         remove_outliers ks raw =
           filter (\<lambda>r. \<not> fl_gt (to_numeric (iteration_time_ns r))
                          (outlier_threshold raw (graph_type r))) raw \<and>
         remove_outliers ks raw = remove_outliers (unique (map graph_type raw)) raw"
proof (intro conjI allI impI)
  fix ks1 g ks2 assume ks: "ks = ks1 @ g # ks2"
  then have "distinct ks1" "g \<notin> set ks1" using assms(1) by auto
  then show g: "filter (\<lambda>r. key_eq (graph_type r) g) (remove_outliers ks1 raw) =
              filter (\<lambda>r. key_eq (graph_type r) g) raw"
    by (rule group_untouched_before_its_round)
  show "outlier_threshold (remove_outliers ks1 raw) g = outlier_threshold raw g"
    by (rule outlier_threshold_cong) (rule g)
next
  have closed: "remove_outliers ks' raw =
           filter (\<lambda>r. \<not> fl_gt (to_numeric (iteration_time_ns r))
                          (outlier_threshold raw (graph_type r))) raw"
    if "distinct ks'" "set ks' = set (map graph_type raw)" for ks'
    unfolding remove_outliers_closed_form[OF that(1)]
  proof (rule filter_cong[OF refl])
    fix r assume "r \<in> set raw"
    then have "graph_type r \<in> set ks'" unfolding that(2) by simp
    then show "(\<not> (\<exists>g \<in> set ks'. is_outlier raw g r)) =
               (\<not> fl_gt (to_numeric (iteration_time_ns r))
                     (outlier_threshold raw (graph_type r)))"
      by (simp only: outlier_of_own_group)
  qed
  show c: "remove_outliers ks raw =
           filter (\<lambda>r. \<not> fl_gt (to_numeric (iteration_time_ns r))
                          (outlier_threshold raw (graph_type r))) raw"
    using assms by (rule closed)
  show "remove_outliers ks raw = remove_outliers (unique (map graph_type raw)) raw"
    unfolding c by (rule closed[symmetric]) simp_all
qed
text \<open>
  A table in which the loop removes a row: 35 iteration times of 0 and one of 36 under key
  A have mean 1 and standard deviation 6, so the threshold of A is 31.
\<close>

definition iteration_example_outlier :: "iteration_raw list" where
  "iteration_example_outlier =
     replicate 35 (iteration_line ''A'' (Number 0) (Number 1) (Number 3) ''sparse'') @
     [iteration_line ''A'' (Number 36) (Number 1) (Number 3) ''sparse'',
      iteration_line ''B'' (Number 7) (Number 1) (Number 3) ''sparse'']"

lemma dropna_values_replicate [simp]: "dropna_values (replicate n (Num x)) = replicate n x"
  by (induction n) auto

lemma dropna_values_append [simp]:
  "dropna_values (xs @ ys) = dropna_values xs @ dropna_values ys"
  by (induction xs rule: dropna_values.induct) auto

lemma iteration_example_outlier_threshold:
  "outlier_threshold iteration_example_outlier (Some ''A'') = Num 31"
  by (simp add: iteration_example_outlier_def outlier_threshold_def iteration_line_def
      reduction_defs Let_def sum_list_replicate)

lemma iteration_example_outlier_removed:
  "remove_outliers [Some ''B'', Some ''A''] iteration_example_outlier =
     replicate 35 (iteration_line ''A'' (Number 0) (Number 1) (Number 3) ''sparse'') @
     [iteration_line ''B'' (Number 7) (Number 1) (Number 3) ''sparse'']"
  by (simp add: iteration_example_outlier_def outlier_threshold_def iteration_line_def
      reduction_defs Let_def sum_list_replicate)

lemma removeAll_replicate_same [simp]: "removeAll x (replicate n x) = []"
  by (induction n) auto

lemma unique_replicate_append:
  "0 < n \<Longrightarrow> unique (replicate n x @ ys) = x # unique (removeAll x ys)"
  by (cases n) auto

lemma iteration_example_outlier_keys:
  "unique (map graph_type iteration_example_outlier) = [Some ''A'', Some ''B'']"
  by (simp add: iteration_example_outlier_def iteration_line_def unique_replicate_append)

lemma iteration_example_outlier_load:
  "iteration_load_and_clean_data iteration_example_outlier =
     Inr (replicate 35 (iteration_typed ''A'' (Num 0) (Num 1) (Num 3) ''sparse'') @
          [iteration_typed ''B'' (Num 7) (Num 1) (Num 3) ''sparse''], [Removed_outliers 1])"
  by (simp add: iteration_load_and_clean_data_def iteration_example_outlier_keys)
     (simp add: iteration_example_outlier_def iteration_defs reduction_defs
      sum_list_replicate list_ex_iff)

theorem outlier_removal_witness:
  "distinct [Some ''B'', Some ''A''] \<and>
   set [Some ''B'', Some ''A''] = set (map graph_type iteration_example_outlier) \<and>
   outlier_threshold (remove_outliers [Some ''B''] iteration_example_outlier) (Some ''A'') =
     Num 31 \<and>
   remove_outliers [Some ''B'', Some ''A''] iteration_example_outlier =
     replicate 35 (iteration_line ''A'' (Number 0) (Number 1) (Number 3) ''sparse'') @
     [iteration_line ''B'' (Number 7) (Number 1) (Number 3) ''sparse''] \<and>
   remove_outliers (unique (map graph_type iteration_example_outlier))
     iteration_example_outlier =
     replicate 35 (iteration_line ''A'' (Number 0) (Number 1) (Number 3) ''sparse'') @
     [iteration_line ''B'' (Number 7) (Number 1) (Number 3) ''sparse'']"
proof -
  have d: "distinct [Some ''B'', Some ''A'']" by simp
  have s: "set [Some ''B'', Some ''A''] = set (map graph_type iteration_example_outlier)"
    by (auto simp: iteration_example_outlier_def iteration_line_def)
  note t = outlier_removal_is_group_independent[OF d s]
  have "[Some ''B'', Some ''A''] = [Some ''B''] @ Some ''A'' # []" by simp
  with t have "outlier_threshold (remove_outliers [Some ''B''] iteration_example_outlier)
                 (Some ''A'') = outlier_threshold iteration_example_outlier (Some ''A'')"
    by blast
  moreover have
    "remove_outliers (unique (map graph_type iteration_example_outlier))
       iteration_example_outlier =
     remove_outliers [Some ''B'', Some ''A''] iteration_example_outlier"
    by (rule t[THEN conjunct2, THEN conjunct2, symmetric])
  ultimately show ?thesis
    using d s
    by (simp only: iteration_example_outlier_threshold iteration_example_outlier_removed
        simp_thms)
qed

subsection \<open>When the loaders return\<close>








text \<open>
  The same happens when every field of the timing column looks like a number but
  \<^verbatim>\<open>read_csv\<close> finds no numeric type for the column, as with 18446744073709551615 next
  to -1: the column stays a column of strings.
\<close>

lemma timing_column_of_number_strings_raises:
  "benchmark_load_and_clean_data
     [benchmark_line ''A'' (Number_text 18446744073709551615) (Number 0) (Number 1),
      benchmark_line ''A'' (Number_text (- 1)) (Number 0) (Number 1)] = Inl TypeError \<and>
   iteration_load_and_clean_data
     [iteration_line ''A'' (Number_text 18446744073709551615) (Number 5) (Number 2) ''sparse'',
      iteration_line ''A'' (Number_text (- 1)) (Number 5) (Number 2) ''sparse''] =
     Inl TypeError"
  by (simp add: benchmark_defs iteration_defs)

subsection \<open>Quantiles of a sorted column, in exact arithmetic\<close>

text \<open>
  The facts of this subsection are about \<open>quantile\<close>, \<open>median\<close> and \<open>max_col\<close> as
  functions on real numbers. numpy interpolates in float64, where a column that holds an
  infinity has the percentile NaN and a rounded percentile can pass the maximum of an
  integer column; that arithmetic is not modelled for the summary, so nothing here is a
  statement about the order of the percentiles the scripts print.

  The value \<^verbatim>\<open>quantile\<close> reads off a sorted list at a fractional index.
\<close>

definition interpolate :: "real list \<Rightarrow> real \<Rightarrow> real" where
  "interpolate v h =
     (let previous = nat \<lfloor>h\<rfloor>; next = min (previous + 1) (length v - 1)
      in v ! previous + (v ! next - v ! previous) * (h - real previous))"

lemma sort_eq_Nil_iff [simp]: "sort_key f xs = [] \<longleftrightarrow> xs = []"
  by (metis length_sort length_0_conv)

lemma quantile_interpolate:
  "quantile col q =
     (if dropna_values col = [] then NaN
      else Num (interpolate (sort (dropna_values col))
                  ((real (length (dropna_values col)) - 1) * q)))"
  by (simp add: quantile_def interpolate_def Let_def)

lemma floor_index:
  assumes "0 \<le> h" and "h \<le> real (length v) - 1"
  shows "nat \<lfloor>h\<rfloor> < length v" and "real (nat \<lfloor>h\<rfloor>) \<le> h" and "h < real (nat \<lfloor>h\<rfloor>) + 1"
proof -
  have "real (nat \<lfloor>h\<rfloor>) = of_int \<lfloor>h\<rfloor>" using assms(1) by simp
  then show "real (nat \<lfloor>h\<rfloor>) \<le> h" and "h < real (nat \<lfloor>h\<rfloor>) + 1"
    by linarith+
  then have "real (nat \<lfloor>h\<rfloor>) < real (length v)" using assms(2) by linarith
  then show "nat \<lfloor>h\<rfloor> < length v" by simp
qed

lemma interpolate_between:
  assumes "sorted v" and "0 \<le> h" and "h \<le> real (length v) - 1"
  shows "v ! nat \<lfloor>h\<rfloor> \<le> interpolate v h"
    and "interpolate v h \<le> v ! min (nat \<lfloor>h\<rfloor> + 1) (length v - 1)"
proof -
  let ?p = "nat \<lfloor>h\<rfloor>" and ?n = "min (nat \<lfloor>h\<rfloor> + 1) (length v - 1)"
  note f = floor_index[OF assms(2,3)]
  have "?p \<le> ?n" "?n < length v" using f(1) by auto
  then have le: "v ! ?p \<le> v ! ?n" using assms(1) by (simp add: sorted_nth_mono)
  have g: "0 \<le> h - real ?p" "h - real ?p \<le> 1" using f(2,3) by linarith+
  have "0 \<le> (v ! ?n - v ! ?p) * (h - real ?p)"
    using le g(1) by simp
  then show "v ! ?p \<le> interpolate v h"
    by (simp add: interpolate_def Let_def)
  have "(v ! ?n - v ! ?p) * (h - real ?p) \<le> (v ! ?n - v ! ?p) * 1"
    using le g(2) by (intro mult_left_mono) simp_all
  then show "interpolate v h \<le> v ! ?n"
    by (simp add: interpolate_def Let_def)
qed

lemma interpolate_mono:
  assumes "sorted v" and "0 \<le> h" and "h \<le> h'" and "h' \<le> real (length v) - 1"
  shows "interpolate v h \<le> interpolate v h'"
proof -
  let ?p = "nat \<lfloor>h\<rfloor>" and ?p' = "nat \<lfloor>h'\<rfloor>"
  have h: "h \<le> real (length v) - 1" and h': "0 \<le> h'" using assms by linarith+
  have pp: "?p \<le> ?p'" using assms(3) by (simp add: floor_mono nat_mono)
  show ?thesis
  proof (cases "?p = ?p'")
    case True
    let ?n = "min (?p + 1) (length v - 1)"
    note f = floor_index[OF assms(2) h]
    have "?p \<le> ?n" "?n < length v" using f(1) by auto
    then have "v ! ?p \<le> v ! ?n" using assms(1) by (simp add: sorted_nth_mono)
    then have "(v ! ?n - v ! ?p) * (h - real ?p) \<le> (v ! ?n - v ! ?p) * (h' - real ?p)"
      using assms(3) by (intro mult_left_mono) simp_all
    then show ?thesis
      by (simp add: interpolate_def Let_def True[symmetric])
  next
    case False
    with pp have lt: "?p + 1 \<le> ?p'" by simp
    note f' = floor_index[OF h' assms(4)]
    have "min (?p + 1) (length v - 1) \<le> ?p'" using lt by simp
    then have "v ! min (?p + 1) (length v - 1) \<le> v ! ?p'"
      using assms(1) f'(1) by (simp add: sorted_nth_mono)
    with interpolate_between(2)[OF assms(1,2) h] interpolate_between(1)[OF assms(1) h' assms(4)]
    show ?thesis by linarith
  qed
qed

lemma interpolate_le_Max:
  assumes "sorted v" and "0 \<le> h" and "h \<le> real (length v) - 1"
  shows "interpolate v h \<le> Max (set v)"
proof -
  have "nat \<lfloor>h\<rfloor> < length v" using floor_index(1)[OF assms(2,3)] .
  then have "min (nat \<lfloor>h\<rfloor> + 1) (length v - 1) < length v" by auto
  then have "v ! min (nat \<lfloor>h\<rfloor> + 1) (length v - 1) \<le> Max (set v)"
    by (intro Max_ge) simp_all
  with interpolate_between(2)[OF assms] show ?thesis by linarith
qed

text \<open>The median of pandas is the quantile at one half.\<close>

lemma median_is_quantile_half: "median col = quantile col (1 / 2)"
proof (cases "dropna_values col = []")
  case True
  then show ?thesis by (simp add: median_def quantile_def)
next
  case False
  let ?v = "sort (dropna_values col)"
  let ?n = "length (dropna_values col)"
  have n: "0 < ?n" using False by simp
  show ?thesis
  proof (cases "odd ?n")
    case True
    then obtain k where k: "?n = 2 * k + 1" by (auto elim: oddE)
    have h: "(real ?n - 1) * (1 / 2) = real k" by (simp add: k)
    have "quantile col (1 / 2) = Num (?v ! k)"
      using n unfolding quantile_def Let_def length_sort h by simp
    moreover have "median col = Num (?v ! k)"
      using n True unfolding median_def Let_def length_sort by (simp add: k)
    ultimately show ?thesis by simp
  next
    case False
    then obtain k where k: "?n = 2 * k" by (auto elim: evenE)
    with n have k0: "0 < k" by simp
    have h: "(real ?n - 1) * (1 / 2) = real (k - 1) + 1 / 2"
      using k0 by (simp add: k of_nat_diff)
    have fl: "nat \<lfloor>real (k - 1) + 1 / 2\<rfloor> = k - 1"
      by linarith
    have nx: "min (k - 1 + 1) (?n - 1) = k" using k0 k by simp
    have "quantile col (1 / 2) = Num (?v ! (k - 1) + (?v ! k - ?v ! (k - 1)) * (1 / 2))"
      using n unfolding quantile_def Let_def length_sort h fl nx by simp
    moreover have "median col = Num ((?v ! (k - 1) + ?v ! k) / 2)"
      using n False unfolding median_def Let_def length_sort by (simp add: k)
    ultimately show ?thesis by (simp add: field_simps)
  qed
qed

lemma percentiles_ordered:
  assumes "dropna_values col \<noteq> []"
  shows "\<exists>a b c d. median col = Num a \<and> quantile col 0.95 = Num b \<and>
           quantile col 0.99 = Num c \<and> max_col col = Num d \<and> a \<le> b \<and> b \<le> c \<and> c \<le> d"
proof -
  let ?v = "sort (dropna_values col)"
  let ?m = "real (length (dropna_values col)) - 1"
  have s: "sorted ?v" by simp
  have m: "0 \<le> ?m" using assms by (cases "dropna_values col") simp_all
  have len: "real (length ?v) - 1 = ?m" by simp
  have "interpolate ?v (?m * (1 / 2)) \<le> interpolate ?v (?m * 0.95)"
    using m by (intro interpolate_mono[OF s]) (simp_all add: len mult_left_le)
  moreover have "interpolate ?v (?m * 0.95) \<le> interpolate ?v (?m * 0.99)"
    using m by (intro interpolate_mono[OF s]) (simp_all add: len mult_left_le)
  moreover have "interpolate ?v (?m * 0.99) \<le> Max (set ?v)"
    using m by (intro interpolate_le_Max[OF s]) (simp_all add: len mult_left_le)
  ultimately show ?thesis
    using assms
    by (simp add: median_is_quantile_half quantile_interpolate max_col_def)
qed

subsection \<open>Rounding to float64\<close>

lemma powr_powi: "(2::real) powr of_int e = 2 powi e"
  by (simp add: powr_real_of_int power_int_def power_one_over inverse_eq_divide)

lemma binade_eq:
  assumes "x \<noteq> 0" and "2 powi e \<le> \<bar>x\<bar>" and "\<bar>x\<bar> < 2 powi (e + 1)"
  shows "\<lfloor>log 2 \<bar>x\<bar>\<rfloor> = e"
proof -
  have "0 < \<bar>x\<bar>" using assms(1) by simp
  moreover have "2 powr of_int e \<le> \<bar>x\<bar>" "\<bar>x\<bar> < 2 powr (of_int e + 1)"
    using assms(2,3) powr_powi[of e] powr_powi[of "e + 1"] by simp_all
  ultimately show ?thesis
    by (subst floor_log_eq_powr_iff) simp_all
qed

lemma round_half_even_of_int [simp]: "round_half_even (of_int j) = j"
  by (simp add: round_half_even_def)

lemma float64_zero [simp]: "float64 0 = Finite 0"
  by (simp add: float64_def)

lemma float64_eval:
  assumes "x \<noteq> 0" and "2 powi e \<le> \<bar>x\<bar>" and "\<bar>x\<bar> < 2 powi (e + 1)" and "- 1022 \<le> e"
  shows "float64 x =
     (let ulp = 2 powi (e - 52); r = of_int (round_half_even (x / ulp)) * ulp
      in if \<bar>r\<bar> \<ge> 2 ^ 1024 then (if x > 0 then PosInf else NegInf) else Finite r)"
  using assms(1,4) by (simp add: float64_def binade_eq[OF assms(1-3)] max_def)

lemma float64_tenth: "float64 (1 / 10) = Finite (3602879701896397 / 2 ^ 55)"
  by (subst float64_eval[where e = "- 4"]) (simp_all add: round_half_even_def Let_def)

lemma round_half_even_bounds:
  assumes "of_int lo \<le> q" and "q \<le> of_int hi"
  shows "lo \<le> round_half_even q" and "round_half_even q \<le> hi"
proof -
  have f: "lo \<le> \<lfloor>q\<rfloor>" using assms(1) by (simp add: le_floor_iff)
  then show "lo \<le> round_half_even q"
    by (auto simp: round_half_even_def Let_def)
  show "round_half_even q \<le> hi"
  proof (cases "q = of_int hi")
    case True
    then show ?thesis by simp
  next
    case False
    with assms(2) have "q < of_int hi" by simp
    then have "\<lfloor>q\<rfloor> < hi" by (simp add: floor_less_iff)
    then show ?thesis by (auto simp: round_half_even_def Let_def)
  qed
qed

text \<open>A number in the normal range rounds to a positive (negative) finite number or overflows.\<close>

lemma float64_normal:
  assumes "0 < x" and "2 powi e \<le> x" and "x < 2 powi (e + 1)" and "- 1022 \<le> e" and "e \<le> 1022"
  shows "\<exists>r. float64 x = Finite r \<and> 0 < r"
proof -
  let ?ulp = "(2::real) powi (e - 52)"
  let ?j = "round_half_even (x / ?ulp)"
  have u: "0 < ?ulp" by simp
  have "2 powi e = 2 ^ 52 * ?ulp" "2 powi (e + 1) = 2 ^ 53 * ?ulp"
    by (simp_all add: power_int_diff power_int_add)
  with assms(2,3) have "of_int (2 ^ 52) \<le> x / ?ulp" "x / ?ulp \<le> of_int (2 ^ 53)"
    using u by (simp_all add: field_simps)
  then have j: "2 ^ 52 \<le> ?j" "?j \<le> 2 ^ 53"
    using round_half_even_bounds by blast+
  have pos: "0 < of_int ?j * ?ulp" using j(1) u by simp
  have "of_int ?j * ?ulp \<le> 2 ^ 53 * ?ulp"
    using j(2) u by (simp add: mult_right_mono)
  also have "\<dots> = 2 powi (e + 1)" by (simp add: power_int_diff power_int_add)
  also have "\<dots> \<le> 2 powi 1023" using assms(5) by (intro power_int_increasing) simp_all
  also have "\<dots> < 2 ^ 1024" by simp
  finally have fin: "\<bar>of_int ?j * ?ulp\<bar> < 2 ^ 1024" using pos by simp
  have "float64 x = Finite (of_int ?j * ?ulp)"
    using assms(1-4) fin by (subst float64_eval[where e = e]) (simp_all add: Let_def)
  with pos show ?thesis by blast
qed

text \<open>Numbers with a 53-bit significand are floats.\<close>

lemma float64_exact:
  assumes "x = of_int j * 2 powi (e - 52)" and "2 ^ 52 \<le> \<bar>j\<bar>" and "\<bar>j\<bar> < 2 ^ 53"
    and "- 1022 \<le> e" and "e \<le> 1023"
  shows "float64 x = Finite x"
proof -
  let ?ulp = "(2::real) powi (e - 52)"
  have u: "0 < ?ulp" by simp
  have ax: "\<bar>x\<bar> = of_int \<bar>j\<bar> * ?ulp" by (simp add: assms(1) abs_mult)
  have p: "2 powi e = 2 ^ 52 * ?ulp" "2 powi (e + 1) = 2 ^ 53 * ?ulp"
    by (simp_all add: power_int_diff power_int_add)
  have "(of_int (2 ^ 52) :: real) \<le> of_int \<bar>j\<bar>" "(of_int \<bar>j\<bar> :: real) < of_int (2 ^ 53)"
    using assms(2,3) by (simp_all only: of_int_le_iff of_int_less_iff)
  then have "(2::real) ^ 52 \<le> of_int \<bar>j\<bar>" "of_int \<bar>j\<bar> < (2::real) ^ 53"
    by simp_all
  then have lo: "2 powi e \<le> \<bar>x\<bar>" and hi: "\<bar>x\<bar> < 2 powi (e + 1)"
    unfolding ax p using u by simp_all
  have "0 < (2::real) powi e" by simp
  with lo have "0 < \<bar>x\<bar>" by linarith
  then have nz: "x \<noteq> 0" by simp
  have q: "x / ?ulp = of_int j" by (simp add: assms(1))
  have "\<bar>x\<bar> < 2 powi 1024"
    using hi power_int_increasing[of "e + 1" 1024 "2::real"] assms(5) by simp
  then have fin: "\<bar>x\<bar> < 2 ^ 1024" by simp
  show ?thesis
    using fin
    by (subst float64_eval[OF nz lo hi assms(4)]) (simp add: Let_def q assms(1)[symmetric])
qed

lemma float64_int:
  assumes "\<bar>z\<bar> < 2 ^ 53"
  shows "float64 (of_int z) = Finite (of_int z)"
proof (cases "z = 0")
  case True
  then show ?thesis by simp
next
  case False
  define e where "e = \<lfloor>log 2 (of_int \<bar>z\<bar>)\<rfloor>"
  have z1: "1 \<le> \<bar>z\<bar>" using False by simp
  have pos: "0 < (of_int \<bar>z\<bar> :: real)" using z1 by simp
  have b: "(2::real) powr of_int e \<le> of_int \<bar>z\<bar>" "(of_int \<bar>z\<bar> :: real) < 2 powr (of_int e + 1)"
    using floor_log_eq_powr_iff[of "of_int \<bar>z\<bar>" 2 e] pos unfolding e_def by simp_all
  have e0: "0 \<le> e" unfolding e_def using z1 by simp
  have zr: "(of_int \<bar>z\<bar> :: real) < 2 ^ 53"
  proof -
    have "(of_int \<bar>z\<bar> :: real) < of_int (2 ^ 53)"
      using assms by (simp only: of_int_less_iff)
    then show ?thesis by simp
  qed
  have "e < 53"
  proof (rule ccontr)
    assume "\<not> e < 53"
    then have "(2::real) powi 53 \<le> 2 powi e"
      by (intro power_int_increasing) simp_all
    with b(1) zr show False by (simp add: powr_powi)
  qed
  then have e52: "e \<le> 52" by simp
  define n where "n = nat (52 - e)"
  have en: "e - 52 = - int n" unfolding n_def using e52 by simp
  have ulp: "(2::real) powi (e - 52) = 1 / 2 ^ n"
    unfolding en by (simp add: power_int_minus inverse_eq_divide)
  have pe: "(2::real) powr of_int e = 2 ^ 52 / 2 ^ n" "(2::real) powr (of_int e + 1) = 2 ^ 53 / 2 ^ n"
  proof -
    have "(2::real) powr of_int e = 2 powi e" by (rule powr_powi)
    also have "\<dots> = 2 powi 52 * 2 powi (e - 52)" by (simp add: power_int_diff)
    finally show "(2::real) powr of_int e = 2 ^ 52 / 2 ^ n" by (simp add: ulp)
    have "(2::real) powr (of_int e + 1) = 2 powi (e + 1)" using powr_powi[of "e + 1"] by simp
    also have "\<dots> = 2 powi 53 * 2 powi (e - 52)" by (simp add: power_int_diff power_int_add)
    finally show "(2::real) powr (of_int e + 1) = 2 ^ 53 / 2 ^ n" by (simp add: ulp)
  qed
  let ?j = "z * 2 ^ n"
  have x: "(of_int z :: real) = of_int ?j * 2 powi (e - 52)" by (simp add: ulp)
  have "(2::real) ^ 52 \<le> of_int \<bar>z\<bar> * 2 ^ n" "of_int \<bar>z\<bar> * 2 ^ n < (2::real) ^ 53"
    using b unfolding pe by (simp_all add: field_simps)
  then have "(of_int (2 ^ 52) :: real) \<le> of_int (\<bar>z\<bar> * 2 ^ n)" "(of_int (\<bar>z\<bar> * 2 ^ n) :: real) < of_int (2 ^ 53)"
    by simp_all
  then have "2 ^ 52 \<le> \<bar>z\<bar> * 2 ^ n" "\<bar>z\<bar> * 2 ^ n < 2 ^ 53"
    unfolding of_int_le_iff of_int_less_iff by simp_all
  then have j: "2 ^ 52 \<le> \<bar>?j\<bar>" "\<bar>?j\<bar> < 2 ^ 53"
    by (simp_all add: abs_mult)
  show ?thesis
    using float64_exact[OF x j] e0 e52 by simp
qed

lemma int_normalise:
  assumes "z \<noteq> 0" and "\<bar>z\<bar> < 2 ^ 53"
  shows "\<exists>n. n \<le> 52 \<and> 2 ^ 52 \<le> \<bar>z\<bar> * 2 ^ n \<and> \<bar>z\<bar> * 2 ^ n < (2::int) ^ 53"
proof -
  define P where "P n \<longleftrightarrow> 2 ^ 52 \<le> \<bar>z\<bar> * (2::int) ^ n" for n
  have z1: "1 \<le> \<bar>z\<bar>" using assms(1) by simp
  have "P 52" unfolding P_def using z1 by simp
  then have ex: "\<exists>n. P n" ..
  define n where "n = (LEAST n. P n)"
  have Pn: "P n" unfolding n_def using ex by (rule LeastI_ex)
  have n52: "n \<le> 52" unfolding n_def using \<open>P 52\<close> by (rule Least_le)
  have "\<bar>z\<bar> * 2 ^ n < 2 ^ 53"
  proof (cases n)
    case 0
    then show ?thesis using assms(2) by simp
  next
    case (Suc m)
    have "\<not> P m" unfolding n_def[symmetric] using not_less_Least[of m P] Suc
      by (simp add: n_def)
    then have "\<bar>z\<bar> * 2 ^ m < 2 ^ 52" by (simp add: P_def)
    then show ?thesis using Suc by simp
  qed
  with Pn n52 show ?thesis unfolding P_def by blast
qed

lemma float64_scaled_int:
  assumes "\<bar>z\<bar> < 2 ^ 53" and "- 1022 \<le> p" and "p \<le> 971"
  shows "float64 (of_int z * 2 powi p) = Finite (of_int z * 2 powi p)"
proof (cases "z = 0")
  case True
  then show ?thesis by simp
next
  case False
  then obtain n where n: "n \<le> 52" "2 ^ 52 \<le> \<bar>z\<bar> * 2 ^ n" "\<bar>z\<bar> * 2 ^ n < (2::int) ^ 53"
    using int_normalise[OF _ assms(1)] by blast
  let ?j = "z * 2 ^ n" and ?e = "p - int n + 52"
  have "(2::real) powi (?e - 52) = 2 powi p / 2 ^ n"
    by (simp add: power_int_diff)
  then have x: "of_int z * 2 powi p = of_int ?j * (2::real) powi (?e - 52)"
    by simp
  have j: "2 ^ 52 \<le> \<bar>?j\<bar>" "\<bar>?j\<bar> < 2 ^ 53"
    using n(2,3) by (simp_all add: abs_mult)
  show ?thesis
    using float64_exact[OF x j] n(1) assms(2,3) by simp
qed

lemma float64_numeral [simp]:
  "(numeral n :: int) < 2 ^ 53 \<Longrightarrow> float64 (numeral n) = Finite (numeral n)"
  "(numeral n :: int) < 2 ^ 53 \<Longrightarrow> float64 (- numeral n) = Finite (- numeral n)"
  "float64 1 = Finite 1"
  "float64 (- 1) = Finite (- 1)"
  using float64_int[of "numeral n"] float64_int[of "- numeral n"] float64_int[of 1]
    float64_int[of "- 1"]
  by simp_all

lemma tenth_exact: "float64 (3602879701896397 / 2 ^ 55) = Finite (3602879701896397 / 2 ^ 55)"
  using float64_scaled_int[of 3602879701896397 "- 55"] by (simp add: power_int_minus field_simps)

lemma two_tenths: "float64 (3602879701896397 / 2 ^ 54) = Finite (3602879701896397 / 2 ^ 54)"
  using float64_scaled_int[of 3602879701896397 "- 54"] by (simp add: power_int_minus field_simps)

lemma three_tenths: "float64 (3 * 3602879701896397 / 2 ^ 55) = Finite (5404319552844596 / 2 ^ 54)"
  by (subst float64_eval[where e = "- 2"]) (simp_all add: round_half_even_def Let_def)

lemma three_tenths_mean: "float64 (5404319552844596 / 2 ^ 54 / 3) = Finite (7205759403792795 / 2 ^ 56)"
  by (subst float64_eval[where e = "- 4"]) (simp_all add: round_half_even_def Let_def)

lemma tenth_deviation: "float64 (- 1 / 2 ^ 56) = Finite (- 1 / 2 ^ 56)"
  using float64_scaled_int[of "- 1" "- 56"] by (simp add: power_int_minus field_simps)

lemma tenth_products: "float64 (1 / 2 ^ 112) = Finite (1 / 2 ^ 112)"
  "float64 (2 / 2 ^ 112) = Finite (2 / 2 ^ 112)"
  "float64 (3 / 2 ^ 112) = Finite (3 / 2 ^ 112)"
  "float64 (3 / 2 ^ 113) = Finite (3 / 2 ^ 113)"
  "float64 (1 / 2 ^ 56) = Finite (1 / 2 ^ 56)"
  "float64 (1 / 2) = Finite (1 / 2)"
  using float64_scaled_int[of 1 "- 112"] float64_scaled_int[of 1 "- 111"]
    float64_scaled_int[of 3 "- 112"] float64_scaled_int[of 3 "- 113"]
    float64_scaled_int[of 1 "- 56"] float64_scaled_int[of 1 "- 1"]
  by (simp_all add: power_int_minus field_simps)

subsection \<open>Correlation with a constant series\<close>

lemma pairwise_sum_short:
  "length a < 8 \<Longrightarrow> pairwise_sum a = foldl np_add (Finite 0) a"
  by (subst pairwise_sum.simps) simp

lemmas corr_defs = corr_def np_corrcoef_def np_cov_def np_dot_def np_mean_def np_sum_def
  np_subtract_def pairwise_sum_short Let_def

lemma zero_or_nan_cases: "zero_or_nan z \<longleftrightarrow> z = Finite 0 \<or> z = Nan"
  by (cases z) auto

lemma np_subtract_self: "zero_or_nan (np_subtract v v)"
  by (cases v) (auto simp: np_subtract_def)

lemma np_multiply_zero_or_nan: "zero_or_nan z \<Longrightarrow> zero_or_nan (np_multiply z w)"
  by (cases z; cases w) auto

lemma np_multiply_zero_or_nan_right: "zero_or_nan z \<Longrightarrow> zero_or_nan (np_multiply w z)"
  by (cases z; cases w) auto

lemma np_add_zero_or_nan: "zero_or_nan z \<Longrightarrow> zero_or_nan w \<Longrightarrow> zero_or_nan (np_add z w)"
  by (cases z; cases w) auto

lemma foldl_zero_or_nan:
  "zero_or_nan z \<Longrightarrow> \<forall>w \<in> set ws. zero_or_nan w \<Longrightarrow> zero_or_nan (foldl np_add z ws)"
  by (induction ws arbitrary: z) (auto simp: np_add_zero_or_nan)


lemma np_dot_zero_or_nan_left: "\<forall>a \<in> set x. zero_or_nan a \<Longrightarrow> zero_or_nan (np_dot x y)"
  unfolding np_dot_def
  by (rule foldl_zero_or_nan) (auto simp: np_multiply_zero_or_nan dest: set_zip_leftD)

lemma np_dot_zero_or_nan_right: "\<forall>b \<in> set y. zero_or_nan b \<Longrightarrow> zero_or_nan (np_dot x y)"
  unfolding np_dot_def
  by (rule foldl_zero_or_nan) (auto simp: np_multiply_zero_or_nan_right dest: set_zip_rightD)

lemma np_sqrt_zero_or_nan: "zero_or_nan z \<Longrightarrow> zero_or_nan (np_sqrt z)"
  by (cases z) auto

lemma np_true_divide_zero_or_nan: "zero_or_nan z \<Longrightarrow> zero_or_nan (np_true_divide z s)"
  by (cases z; cases s) auto

lemma np_true_divide_by_zero_or_nan:
  "zero_or_nan z \<Longrightarrow> zero_or_nan s \<Longrightarrow> np_true_divide z s = Nan"
  by (cases z; cases s) auto

lemma np_cov_constant_left:
  assumes "\<forall>a \<in> set x. a = np_mean x"
  shows "zero_or_nan (np_cov x y)"
  unfolding np_cov_def Let_def
  by (intro np_multiply_zero_or_nan np_dot_zero_or_nan_left)
     (use assms in \<open>auto simp: np_subtract_self\<close>)

lemma np_cov_constant_right:
  assumes "\<forall>b \<in> set y. b = np_mean y"
  shows "zero_or_nan (np_cov x y)"
  unfolding np_cov_def Let_def
  by (intro np_multiply_zero_or_nan np_dot_zero_or_nan_right)
     (use assms in \<open>auto simp: np_subtract_self\<close>)

lemma np_corrcoef_constant_left:
  assumes "\<forall>a \<in> set x. a = np_mean x"
  shows "np_corrcoef x y = Nan"
  using np_cov_constant_left[OF assms, of y] np_cov_constant_left[OF assms, of x]
  by (simp add: np_corrcoef_def Let_def np_true_divide_by_zero_or_nan np_sqrt_zero_or_nan)

lemma np_corrcoef_constant_right:
  assumes "\<forall>b \<in> set y. b = np_mean y"
  shows "np_corrcoef x y = Nan"
  using np_cov_constant_right[OF assms, of x] np_cov_constant_right[OF assms, of y]
  by (simp add: np_corrcoef_def Let_def np_true_divide_by_zero_or_nan np_sqrt_zero_or_nan
      np_true_divide_zero_or_nan)

lemma set_dropna_values: "set (dropna_values xs) = {x. Some x \<in> set xs}"
  by (induction xs rule: dropna_values.induct) auto

lemma set_valid_pairs: "set (valid_pairs ps) = {(a, b). (Some a, Some b) \<in> set ps}"
  by (induction ps rule: valid_pairs.induct) auto

lemma valid_pairs_subset:
  "set (map fst (valid_pairs (zip a b))) \<subseteq> set (dropna_values a)"
  "set (map snd (valid_pairs (zip a b))) \<subseteq> set (dropna_values b)"
  by (auto simp: set_dropna_values set_valid_pairs dest: set_zip_leftD set_zip_rightD)

lemma length_valid_pairs: "length (valid_pairs ps) \<le> length ps"
  by (induction ps rule: valid_pairs.induct) auto

lemma foldl_np_add_constant_int:
  assumes "\<bar>k\<bar> * int (m + n) < 2 ^ 53"
  shows "foldl np_add (Finite (of_int (int m * k))) (replicate n (Finite (of_int k))) =
         Finite (of_int (int (m + n) * k))"
  using assms
proof (induction n arbitrary: m)
  case 0
  then show ?case by simp
next
  case (Suc n)
  have "\<bar>int (Suc m) * k\<bar> = \<bar>k\<bar> * int (Suc m)" by (simp add: abs_mult)
  also have "\<dots> \<le> \<bar>k\<bar> * int (m + Suc n)" by (intro mult_left_mono) simp_all
  finally have "\<bar>int (Suc m) * k\<bar> < 2 ^ 53" using Suc.prems by simp
  then have "float64 (of_int (int (Suc m) * k)) = Finite (of_int (int (Suc m) * k))"
    by (rule float64_int)
  moreover have "(of_int (int m * k) + of_int k :: real) = of_int (int (Suc m) * k)"
    by (simp add: algebra_simps)
  ultimately have step: "np_add (Finite (of_int (int m * k))) (Finite (of_int k)) =
      Finite (of_int (int (Suc m) * k))"
    by simp
  have "foldl np_add (Finite (of_int (int m * k))) (replicate (Suc n) (Finite (of_int k))) =
        foldl np_add (Finite (of_int (int (Suc m) * k))) (replicate n (Finite (of_int k)))"
    using step by simp
  also have "\<dots> = Finite (of_int (int (Suc m + n) * k))"
    using Suc.prems by (intro Suc.IH) simp
  finally show ?case by simp
qed

lemma np_add_int:
  assumes "\<bar>a + b\<bar> < 2 ^ 53"
  shows "np_add (Finite (of_int a)) (Finite (of_int b)) = Finite (of_int (a + b))"
  using float64_int[OF assms] by simp

lemma add_blocks_constant_int:
  assumes "\<bar>k\<bar> * int (m + j div 8) < 2 ^ 53"
  shows "add_blocks (replicate 8 (Finite (of_int (int m * k)))) (replicate j (Finite (of_int k))) =
         (replicate 8 (Finite (of_int (int (m + j div 8) * k))),
          replicate (j mod 8) (Finite (of_int k)))"
  using assms
proof (induction j arbitrary: m rule: less_induct)
  case (less j)
  show ?case
  proof (cases "j < 8")
    case True
    then show ?thesis by (subst add_blocks.simps) simp
  next
    case False
    then have j8: "8 \<le> j" by simp
    then have d: "j div 8 = Suc ((j - 8) div 8)" and md: "j mod 8 = (j - 8) mod 8"
      by (simp_all add: le_div_geq le_mod_geq)
    have e: "int m * k + k = int (Suc m) * k" by (simp add: algebra_simps)
    have "\<bar>int m * k + k\<bar> = \<bar>k\<bar> * int (Suc m)" unfolding e by (simp add: abs_mult)
    also have "\<dots> \<le> \<bar>k\<bar> * int (m + j div 8)" unfolding d by (intro mult_left_mono) simp_all
    finally have "\<bar>int m * k + k\<bar> < 2 ^ 53" using less.prems by simp
    then have "np_add (Finite (of_int (int m * k))) (Finite (of_int k)) = Finite (of_int (int m * k + k))"
      by (rule np_add_int)
    also have "int m * k + k = int (Suc m) * k" by (simp add: algebra_simps)
    finally have step: "np_add (Finite (of_int (int m * k))) (Finite (of_int k)) =
        Finite (of_int (int (Suc m) * k))" .
    define A K A' where "A = Finite (of_int (int m * k))" and "K = Finite (real_of_int k)"
      and "A' = Finite (of_int (int (Suc m) * k))"
    have step': "np_add A K = A'" unfolding A_def K_def A'_def by (rule step)
    have t: "take 8 (replicate j K) = replicate 8 K"
      using j8 by (simp add: min_def)
    have "add_blocks (replicate 8 A) (replicate j K) = add_blocks (replicate 8 A') (replicate (j - 8) K)"
      using False by (subst add_blocks.simps) (simp add: t zip_replicate step' del: replicate.simps)
    then have "add_blocks (replicate 8 (Finite (of_int (int m * k)))) (replicate j (Finite (of_int k))) =
          add_blocks (replicate 8 (Finite (of_int (int (Suc m) * k))))
            (replicate (j - 8) (Finite (of_int k)))"
      unfolding A_def K_def A'_def .
    also have "\<dots> = (replicate 8 (Finite (of_int (int (Suc m + (j - 8) div 8) * k))),
          replicate ((j - 8) mod 8) (Finite (of_int k)))"
      using j8 less.prems by (intro less.IH) (simp_all add: d)
    finally show ?thesis by (simp add: d md)
  qed
qed

lemma pairwise_sum_constant_int:
  assumes "\<bar>k\<bar> * int n < 2 ^ 53"
  shows "pairwise_sum (replicate n (Finite (of_int k))) = Finite (of_int (int n * k))"
  using assms
proof (induction n rule: less_induct)
  case (less n)
  let ?K = "Finite (of_int k)"
  consider "n < 8" | "8 \<le> n" "n \<le> 128" | "128 < n" by linarith
  then show ?case
  proof cases
    case 1
    then show ?thesis
      using foldl_np_add_constant_int[of k 0 n] less.prems by (simp add: pairwise_sum_short)
  next
    case 2
    define m where "m = n div 8"
    have m1: "m = 1 + (n - 8) div 8" and md: "n mod 8 = (n - 8) mod 8"
      using 2(1) by (simp_all add: m_def le_div_geq le_mod_geq)
    have n: "n = 8 * m + n mod 8" by (simp add: m_def)
    have bound: "\<bar>k\<bar> * int j < 2 ^ 53" if "j \<le> n" for j
    proof -
      have "\<bar>k\<bar> * int j \<le> \<bar>k\<bar> * int n" using that by (intro mult_left_mono) simp_all
      then show ?thesis using less.prems by simp
    qed
    have "\<bar>k\<bar> * int (1 + (n - 8) div 8) < 2 ^ 53"
      unfolding m1[symmetric] using bound[of m] n by simp
    from add_blocks_constant_int[OF this]
    have ab: "add_blocks (replicate 8 ?K) (replicate (n - 8) ?K) =
        (replicate 8 (Finite (of_int (int m * k))), replicate (n mod 8) ?K)"
      unfolding m1[symmetric] md[symmetric] by simp
    have a2: "np_add (Finite (of_int (int m * k))) (Finite (of_int (int m * k))) =
        Finite (of_int (int (2 * m) * k))"
      using np_add_int[of "int m * k" "int m * k"] bound[of "2 * m"] n
      by (simp add: abs_mult algebra_simps)
    have a4: "np_add (Finite (of_int (int (2 * m) * k))) (Finite (of_int (int (2 * m) * k))) =
        Finite (of_int (int (4 * m) * k))"
      using np_add_int[of "int (2 * m) * k" "int (2 * m) * k"] bound[of "4 * m"] n
      by (simp add: abs_mult algebra_simps)
    have a8: "np_add (Finite (of_int (int (4 * m) * k))) (Finite (of_int (int (4 * m) * k))) =
        Finite (of_int (int (8 * m) * k))"
      using np_add_int[of "int (4 * m) * k" "int (4 * m) * k"] bound[of "8 * m"] n
      by (simp add: abs_mult algebra_simps)
    have tail: "foldl np_add (Finite (of_int (int (8 * m) * k))) (replicate (n mod 8) ?K) =
        Finite (of_int (int n * k))"
      using foldl_np_add_constant_int[of k "8 * m" "n mod 8"] less.prems n by simp
    define K R R2 R4 R8 where "K = Finite (real_of_int k)"
      and "R = Finite (of_int (int m * k))" and "R2 = Finite (of_int (int (2 * m) * k))"
      and "R4 = Finite (of_int (int (4 * m) * k))" and "R8 = Finite (of_int (int (8 * m) * k))"
    note defs = K_def R_def R2_def R4_def R8_def
    have t: "take 8 (replicate n K) = replicate 8 K"
      using 2(1) by (simp add: min_def)
    have ab': "add_blocks (replicate 8 K) (replicate (n - 8) K) = (replicate 8 R, replicate (n mod 8) K)"
      unfolding defs by (rule ab)
    have a': "np_add R R = R2" "np_add R2 R2 = R4" "np_add R4 R4 = R8"
      unfolding defs by (rule a2 a4 a8)+
    have "pairwise_sum (replicate n K) = foldl np_add R8 (replicate (n mod 8) K)"
      using 2 by (subst pairwise_sum.simps) (simp add: t ab' a' del: replicate.simps)
    then have "pairwise_sum (replicate n ?K) =
        foldl np_add (Finite (of_int (int (8 * m) * k))) (replicate (n mod 8) ?K)"
      unfolding defs .
    then show ?thesis by (simp only: tail)
  next
    case 3
    define n2 where "n2 = n div 2 - n div 2 mod 8"
    have n2: "0 < n2" "n2 < n" using 3 unfolding n2_def by linarith+
    have b1: "\<bar>k\<bar> * int n2 < 2 ^ 53" and b2: "\<bar>k\<bar> * int (n - n2) < 2 ^ 53"
    proof -
      have "\<bar>k\<bar> * int n2 \<le> \<bar>k\<bar> * int n" "\<bar>k\<bar> * int (n - n2) \<le> \<bar>k\<bar> * int n"
        using n2 by (intro mult_left_mono; simp)+
      then show "\<bar>k\<bar> * int n2 < 2 ^ 53" "\<bar>k\<bar> * int (n - n2) < 2 ^ 53"
        using less.prems by simp_all
    qed
    have s1: "pairwise_sum (replicate n2 ?K) = Finite (of_int (int n2 * k))"
      using n2 b1 by (intro less.IH)
    have s2: "pairwise_sum (replicate (n - n2) ?K) = Finite (of_int (int (n - n2) * k))"
      using n2 b2 by (intro less.IH) simp_all
    have "int n2 * k + int (n - n2) * k = int n * k"
      using n2 by (simp add: algebra_simps of_nat_diff)
    moreover from this have "\<bar>int n2 * k + int (n - n2) * k\<bar> < 2 ^ 53"
      using less.prems by (simp add: abs_mult mult.commute)
    ultimately have sum: "np_add (Finite (of_int (int n2 * k))) (Finite (of_int (int (n - n2) * k))) =
        Finite (of_int (int n * k))"
      using np_add_int[of "int n2 * k" "int (n - n2) * k"] by simp
    have "pairwise_sum (replicate n ?K) =
        np_add (pairwise_sum (replicate n2 ?K)) (pairwise_sum (replicate (n - n2) ?K))"
      using 3 n2 by (subst pairwise_sum.simps) (simp add: Let_def n2_def[symmetric] min_def)
    then show ?thesis by (simp only: s1 s2 sum)
  qed
qed

lemma np_mean_constant_int:
  assumes "0 < n" and "\<bar>k\<bar> * int n < 2 ^ 53"
  shows "np_mean (replicate n (Finite (of_int k))) = Finite (of_int k)"
proof -
  have s: "np_sum (replicate n (Finite (of_int k))) = Finite (of_int (int n * k))"
    using pairwise_sum_constant_int[of k n] assms(2) by (simp add: np_sum_def)
  have "\<bar>k\<bar> * 1 \<le> \<bar>k\<bar> * int n" using assms(1) by (intro mult_left_mono) simp_all
  then have "\<bar>k\<bar> < 2 ^ 53" using assms(2) by simp
  then have k: "float64 (of_int k) = Finite (of_int k)" by (rule float64_int)
  have "(of_int (int n * k) :: real) / real n = of_int k" using assms(1) by simp
  then show ?thesis using assms(1) k by (simp add: np_mean_def s)
qed

lemma constant_mean_int:
  assumes "\<forall>x \<in> set xs. x = of_int k" and "\<bar>k\<bar> * int (length xs) < 2 ^ 53"
  shows "constant_mean (map float64 xs)"
proof (cases "xs = []")
  case True
  then show ?thesis by (simp add: constant_mean_def)
next
  case False
  have "\<bar>k\<bar> * 1 \<le> \<bar>k\<bar> * int (length xs)"
    using False by (intro mult_left_mono) (simp_all add: Suc_le_eq)
  then have "\<bar>k\<bar> < 2 ^ 53" using assms(2) by simp
  then have k: "float64 (of_int k) = Finite (of_int k)" by (rule float64_int)
  have "map float64 xs = map (\<lambda>x. Finite (of_int k)) xs"
    using assms(1) k by (intro map_cong refl) simp
  then have x: "map float64 xs = replicate (length xs) (Finite (of_int k))"
    by (simp add: map_replicate_const)
  show ?thesis
    unfolding constant_mean_def x
    using np_mean_constant_int[of "length xs" k] False assms(2) by simp
qed

lemma corr_constant_mean:
  assumes "constant_mean (map float64 (map fst (valid_pairs (zip a b)))) \<or>
           constant_mean (map float64 (map snd (valid_pairs (zip a b))))"
  shows "corr a b = Nan"
proof (cases "valid_pairs (zip a b) = []")
  case True
  then show ?thesis by (simp add: corr_def)
next
  case False
  let ?x = "map float64 (map fst (valid_pairs (zip a b)))"
  let ?y = "map float64 (map snd (valid_pairs (zip a b)))"
  have c: "corr a b = np_corrcoef ?x ?y"
    using False by (simp add: corr_def Let_def Suc_le_eq)
  from assms show ?thesis
    unfolding c constant_mean_def
    using np_corrcoef_constant_left[of ?x ?y] np_corrcoef_constant_right[of ?y ?x] by blast
qed

lemma corr_constant_int_left:
  assumes "\<forall>x \<in> set (dropna_values a). x = of_int k" and "\<bar>k\<bar> * int (length a) < 2 ^ 53"
  shows "corr a b = Nan"
proof -
  let ?v = "valid_pairs (zip a b)"
  have "length ?v \<le> length a" using length_valid_pairs[of "zip a b"] by simp
  then have "\<bar>k\<bar> * int (length ?v) \<le> \<bar>k\<bar> * int (length a)"
    by (intro mult_left_mono) simp_all
  then have "\<bar>k\<bar> * int (length (map fst ?v)) < 2 ^ 53" using assms(2) by simp
  moreover have "\<forall>x \<in> set (map fst ?v). x = of_int k"
    using assms(1) valid_pairs_subset(1)[of a b] by blast
  ultimately have "constant_mean (map float64 (map fst ?v))" by (intro constant_mean_int)
  then show ?thesis by (intro corr_constant_mean disjI1)
qed

lemma corr_constant_int_right:
  assumes "\<forall>y \<in> set (dropna_values b). y = of_int k" and "\<bar>k\<bar> * int (length b) < 2 ^ 53"
  shows "corr a b = Nan"
proof -
  let ?v = "valid_pairs (zip a b)"
  have "length ?v \<le> length b" using length_valid_pairs[of "zip a b"] by simp
  then have "\<bar>k\<bar> * int (length ?v) \<le> \<bar>k\<bar> * int (length b)"
    by (intro mult_left_mono) simp_all
  then have "\<bar>k\<bar> * int (length (map snd ?v)) < 2 ^ 53" using assms(2) by simp
  moreover have "\<forall>x \<in> set (map snd ?v). x = of_int k"
    using assms(1) valid_pairs_subset(2)[of a b] by blast
  ultimately have "constant_mean (map float64 (map snd ?v))" by (intro constant_mean_int)
  then show ?thesis by (intro corr_constant_mean disjI2)
qed

lemma tenth_mean:
  "np_mean [Finite (3602879701896397 / 2 ^ 55), Finite (3602879701896397 / 2 ^ 55),
            Finite (3602879701896397 / 2 ^ 55)] = Finite (7205759403792795 / 2 ^ 56)"
  using tenth_exact two_tenths three_tenths three_tenths_mean by (simp add: np_mean_def np_sum_def pairwise_sum_short)

lemma sqrt_cxx: "\<exists>r. float64 (sqrt (3 / 2 ^ 113)) = Finite r \<and> 0 < r"
proof (rule float64_normal[where e = "- 56"])
  show "(2::real) powi (- 56) \<le> sqrt (3 / 2 ^ 113)"
    by (rule real_le_rsqrt) (simp add: power_int_minus field_simps)
  show "sqrt (3 / 2 ^ 113) < (2::real) powi (- 56 + 1)"
    by (rule real_less_lsqrt) (simp_all add: power_int_minus field_simps)
qed simp_all

lemma corr_example_perfect:
  "corr [Num 1, Num 2, NaN, Num 3] [Num 2, Num 4, Num 5, Num 6] = Finite 1"
  using float64_scaled_int[of 1 "- 1"]
  by (simp add: corr_defs power_int_minus)

lemma constant_mean_example: "constant_mean [Finite 3, Finite 3, Finite 3]"
  by (simp add: constant_mean_def np_mean_def np_sum_def pairwise_sum_short)

text \<open>
  C4. The correlation of two series is NaN, and not 0, when one of them, on the rows
  where both have a value, holds one value throughout and has that value as the mean
  numpy computes of it; \<^verbatim>\<open>corr\<close> has no outcome but a value. This is the case when the
  series holds one integer \<open>k\<close> throughout and \<open>\<bar>k\<bar>\<close> times the number of rows is below
  \<open>2 ^ 53\<close>. So, in the iteration pipeline, a group whose iteration times all are such an
  integer gets the correlation NaN, and in the benchmark pipeline all four correlations
  are NaN when the runtimes all are such an integer.
\<close>

theorem correlation_with_constant_series_is_nan:
  "(constant_mean (map float64 (map fst (valid_pairs (zip a b)))) \<or>
    constant_mean (map float64 (map snd (valid_pairs (zip a b)))) \<longrightarrow> corr a b = Nan) \<and>
   ((\<forall>x \<in> set (dropna_values a). x = of_int k) \<and> \<bar>k\<bar> * int (length a) < 2 ^ 53 \<or>
    (\<forall>y \<in> set (dropna_values b). y = of_int k) \<and> \<bar>k\<bar> * int (length b) < 2 ^ 53
      \<longrightarrow> corr a b = Nan) \<and>
   (\<forall>g. g \<in> set (map graph_type i_df) \<and>
         (\<forall>r \<in> set i_df. key_eq (graph_type r) g \<longrightarrow> iteration_time_ns r = Num (of_int k)) \<and>
         \<bar>k\<bar> * int (length i_df) < 2 ^ 53
         \<longrightarrow> (g, Nan) \<in> set (iteration_correlation_analysis i_df)) \<and>
   ((\<forall>x \<in> set (dropna_values (map runtime_ms b_df)). x = of_int k) \<and>
    \<bar>k\<bar> * int (length b_df) < 2 ^ 53 \<longrightarrow>
      benchmark_correlation_analysis b_df =
        \<lparr>nodes_visited_vs_runtime = Nan, edges_relaxed_vs_runtime = Nan,
         memory_vs_runtime = Nan, path_length_vs_runtime = Nan\<rparr>)"
proof (intro conjI allI impI)
  assume "constant_mean (map float64 (map fst (valid_pairs (zip a b)))) \<or>
          constant_mean (map float64 (map snd (valid_pairs (zip a b))))"
  then show "corr a b = Nan" by (rule corr_constant_mean)
next
  assume "(\<forall>x \<in> set (dropna_values a). x = of_int k) \<and> \<bar>k\<bar> * int (length a) < 2 ^ 53 \<or>
          (\<forall>y \<in> set (dropna_values b). y = of_int k) \<and> \<bar>k\<bar> * int (length b) < 2 ^ 53"
  then show "corr a b = Nan"
    using corr_constant_int_left[of a k b] corr_constant_int_right[of b k a] by blast
next
  fix g
  assume h: "g \<in> set (map graph_type i_df) \<and>
    (\<forall>r \<in> set i_df. key_eq (graph_type r) g \<longrightarrow> iteration_time_ns r = Num (of_int k)) \<and>
    \<bar>k\<bar> * int (length i_df) < 2 ^ 53"
  let ?graph_data = "filter (\<lambda>r. key_eq (graph_type r) g) i_df"
  have "\<forall>y \<in> set (dropna_values (map iteration_time_ns ?graph_data)). y = of_int k"
    using h by (auto simp: set_dropna_values)
  moreover have "\<bar>k\<bar> * int (length (map iteration_time_ns ?graph_data)) < 2 ^ 53"
  proof -
    have "\<bar>k\<bar> * int (length ?graph_data) \<le> \<bar>k\<bar> * int (length i_df)"
      by (intro mult_left_mono) simp_all
    then show ?thesis using h by simp
  qed
  ultimately have "corr (map degree ?graph_data) (map iteration_time_ns ?graph_data) = Nan"
    by (rule corr_constant_int_right)
  moreover have "g \<in> set (unique (map graph_type i_df))" using h by simp
  ultimately show "(g, Nan) \<in> set (iteration_correlation_analysis i_df)"
    unfolding iteration_correlation_analysis_def Let_def by force
next
  assume h: "(\<forall>x \<in> set (dropna_values (map runtime_ms b_df)). x = of_int k) \<and>
    \<bar>k\<bar> * int (length b_df) < 2 ^ 53"
  then have "corr col (map runtime_ms b_df) = Nan" for col
    by (intro corr_constant_int_right[of _ k]) simp_all
  then show "benchmark_correlation_analysis b_df =
        \<lparr>nodes_visited_vs_runtime = Nan, edges_relaxed_vs_runtime = Nan,
         memory_vs_runtime = Nan, path_length_vs_runtime = Nan\<rparr>"
    by (simp add: benchmark_correlation_analysis_def)
qed

theorem correlation_with_constant_series_witness:
  "constant_mean (map float64 (map fst (valid_pairs
      (zip [Num 3, Num 3, Num 3] [Num 1, Num 2, Num 5])))) \<and>
   corr [Num 3, Num 3, Num 3] [Num 1, Num 2, Num 5] = Nan \<and>
   corr [Num 1, Num 2, Num 5] [Num 3, Num 3, Num 3] = Nan \<and>
   (Some ''A'', Nan) \<in> set (iteration_correlation_analysis
      [iteration_typed ''A'' (Num 10) (Num 5) (Num 1) ''sparse'',
       iteration_typed ''A'' (Num 10) (Num 5) (Num 2) ''sparse'',
       iteration_typed ''B'' (Num 5) (Num 10) (Num 1) ''sparse'']) \<and>
   benchmark_correlation_analysis
      [benchmark_typed ''A'' (Num 10) (Num 0) True,
       benchmark_typed ''B'' (Num 10) (Num 3) True] =
     \<lparr>nodes_visited_vs_runtime = Nan, edges_relaxed_vs_runtime = Nan,
      memory_vs_runtime = Nan, path_length_vs_runtime = Nan\<rparr>"
proof -
  let ?i = "[iteration_typed ''A'' (Num 10) (Num 5) (Num 1) ''sparse'',
             iteration_typed ''A'' (Num 10) (Num 5) (Num 2) ''sparse'',
             iteration_typed ''B'' (Num 5) (Num 10) (Num 1) ''sparse'']"
  let ?b = "[benchmark_typed ''A'' (Num 10) (Num 0) True,
             benchmark_typed ''B'' (Num 10) (Num 3) True]"
  note t1 = correlation_with_constant_series_is_nan
              [of "[Num 3, Num 3, Num 3]" "[Num 1, Num 2, Num 5]" 3 ?i ?b]
  note t2 = correlation_with_constant_series_is_nan
              [of "[Num 1, Num 2, Num 5]" "[Num 3, Num 3, Num 3]" 3 ?i ?b]
  note t3 = correlation_with_constant_series_is_nan
              [of "[Num 3, Num 3, Num 3]" "[Num 1, Num 2, Num 5]" 10 ?i ?b]
  have c: "constant_mean (map float64 (map fst (valid_pairs
      (zip [Num 3, Num 3, Num 3] [Num 1, Num 2, Num 5]))))"
    using constant_mean_example by simp
  have k: "(\<forall>x \<in> set (dropna_values [Num 3, Num 3, Num 3]). x = of_int 3) \<and>
           \<bar>3\<bar> * int (length [Num 3, Num 3, Num (3::real)]) < 2 ^ 53"
    by simp
  have g: "Some ''A'' \<in> set (map graph_type ?i) \<and>
           (\<forall>r \<in> set ?i. key_eq (graph_type r) (Some ''A'') \<longrightarrow>
              iteration_time_ns r = Num (of_int 10)) \<and>
           \<bar>10\<bar> * int (length ?i) < 2 ^ 53"
    by (simp add: iteration_typed_def)
  have r: "(\<forall>x \<in> set (dropna_values (map runtime_ms ?b)). x = of_int 10) \<and>
           \<bar>10\<bar> * int (length ?b) < 2 ^ 53"
    by (simp add: benchmark_typed_def)
  from t1 c have "corr [Num 3, Num 3, Num 3] [Num 1, Num 2, Num 5] = Nan" by blast
  moreover from t2 k have "corr [Num 1, Num 2, Num 5] [Num 3, Num 3, Num 3] = Nan" by blast
  moreover from t3 g have "(Some ''A'', Nan) \<in> set (iteration_correlation_analysis ?i)"
    by blast
  moreover from t3 r have "benchmark_correlation_analysis ?b =
     \<lparr>nodes_visited_vs_runtime = Nan, edges_relaxed_vs_runtime = Nan,
      memory_vs_runtime = Nan, path_length_vs_runtime = Nan\<rparr>" by blast
  ultimately show ?thesis using c by blast
qed

text \<open>
  A series that holds 0.1 three times is constant, but the mean numpy computes of it is
  the next float64 above 0.1. The deviations from that mean are not 0, and the correlation
  with the series 1, 2, 3 is the number 0, not NaN: in the iteration pipeline for a group
  whose three iteration times are 0.1 and whose degrees are 1, 2, 3.
\<close>

theorem constant_series_with_inexact_mean_has_correlation_zero:
  "corr [Num (1 / 10), Num (1 / 10), Num (1 / 10)] [Num 1, Num 2, Num 3] = Finite 0 \<and>
   corr [Num 1, Num 2, Num 3] [Num (1 / 10), Num (1 / 10), Num (1 / 10)] = Finite 0 \<and>
   iteration_correlation_analysis
      [iteration_typed ''A'' (Num (1 / 10)) (Num 5) (Num 1) ''sparse'',
       iteration_typed ''A'' (Num (1 / 10)) (Num 5) (Num 2) ''sparse'',
       iteration_typed ''A'' (Num (1 / 10)) (Num 5) (Num 3) ''sparse''] =
     [(Some ''A'', Finite 0)]"
proof -
  obtain r where r: "float64 (sqrt (3 / 2 ^ 113)) = Finite r" "0 < r"
    using sqrt_cxx by blast
  have 1: "corr [Num (1 / 10), Num (1 / 10), Num (1 / 10)] [Num 1, Num 2, Num 3] = Finite 0"
    using tenth_exact two_tenths three_tenths three_tenths_mean tenth_deviation
      tenth_products r
    by (simp add: corr_defs float64_tenth)
  have 2: "corr [Num 1, Num 2, Num 3] [Num (1 / 10), Num (1 / 10), Num (1 / 10)] = Finite 0"
    using tenth_exact two_tenths three_tenths three_tenths_mean tenth_deviation
      tenth_products r
    by (simp add: corr_defs float64_tenth)
  have "iteration_correlation_analysis
      [iteration_typed ''A'' (Num (1 / 10)) (Num 5) (Num 1) ''sparse'',
       iteration_typed ''A'' (Num (1 / 10)) (Num 5) (Num 2) ''sparse'',
       iteration_typed ''A'' (Num (1 / 10)) (Num 5) (Num 3) ''sparse''] =
     [(Some ''A'', corr [Num 1, Num 2, Num 3] [Num (1 / 10), Num (1 / 10), Num (1 / 10)])]"
    by (simp add: iteration_correlation_analysis_def iteration_typed_def)
  with 1 2 show ?thesis by simp
qed

end
